theory Spec2Isabelle
  imports Complex_Main "HOL-Library.Sublist" "HOL-Library.Product_Lexorder"
begin

section \<open>Values, dictionaries and strings\<close>

text \<open>
  The Django models of \<^verbatim>\<open>marketing/models.py\<close> keep several JSON columns
  (\<^verbatim>\<open>metadata\<close>, \<^verbatim>\<open>metrics\<close>, \<^verbatim>\<open>channel_payload\<close>). Their values are the
  shapes the services write: null, integers, floats, strings and lists of strings. A Python
  \<^verbatim>\<open>dict\<close> keeps insertion order, so it is an association list; \<^verbatim>\<open>d.get(k)\<close> on a
  missing key gives \<^verbatim>\<open>None\<close>, which is the JSON null.
\<close>

type_synonym uuid = nat

datatype json = JNull | JInt int | JFloat rat | JStr string | JStrs "string list"

type_synonym dict = "(string \<times> json) list"

datatype error =
    TypeError
  | AttributeError
  | ValueError
  | MultipleObjectsReturned

text \<open>Python truthiness of a JSON value (\<^verbatim>\<open>if not x\<close>, \<^verbatim>\<open>x or y\<close>).\<close>

fun truthy :: "json \<Rightarrow> bool" where
  "truthy JNull = False"
| "truthy (JInt n) = (n \<noteq> 0)"
| "truthy (JFloat q) = (q \<noteq> 0)"
| "truthy (JStr s) = (s \<noteq> [])"
| "truthy (JStrs xs) = (xs \<noteq> [])"

definition py_or :: "json \<Rightarrow> json \<Rightarrow> json" where
  "py_or a b = (if truthy a then a else b)"

definition dict_get_default :: "dict \<Rightarrow> string \<Rightarrow> json \<Rightarrow> json" where
  "dict_get_default d k dflt = (case map_of d k of None \<Rightarrow> dflt | Some v \<Rightarrow> v)"

definition dict_get :: "dict \<Rightarrow> string \<Rightarrow> json" where
  "dict_get d k = dict_get_default d k JNull"

text \<open>\<^verbatim>\<open>d[k] = v\<close>: an existing key keeps its position, a new key goes last.\<close>

fun dict_set :: "string \<Rightarrow> json \<Rightarrow> dict \<Rightarrow> dict" where
  "dict_set k v [] = [(k, v)]"
| "dict_set k v ((k', v') # d) = (if k' = k then (k, v) # d else (k', v') # dict_set k v d)"

text \<open>\<^verbatim>\<open>d.update(e)\<close> and \<^verbatim>\<open>{**d, **e}\<close>: the items of \<^verbatim>\<open>e\<close> are stored in order.\<close>

definition dict_update :: "dict \<Rightarrow> dict \<Rightarrow> dict" where
  "dict_update d e = fold (\<lambda>(k, v). dict_set k v) e d"

text \<open>
  \<^verbatim>\<open>str.replace(old, new)\<close>: every non-overlapping occurrence, left to right. The counter
  skips the rest of an occurrence that has just been replaced.
\<close>

fun replace_scan :: "string \<Rightarrow> string \<Rightarrow> nat \<Rightarrow> string \<Rightarrow> string" where
  "replace_scan old new k [] = []"
| "replace_scan old new (Suc k) (c # cs) = replace_scan old new k cs"
| "replace_scan old new 0 (c # cs) =
     (if prefix old (c # cs) then new @ replace_scan old new (length old - 1) cs
      else c # replace_scan old new 0 cs)"

definition str_replace :: "string \<Rightarrow> string \<Rightarrow> string \<Rightarrow> string" where
  "str_replace s old new =
     (if old = [] then new @ concat (map (\<lambda>c. c # new) s) else replace_scan old new 0 s)"

text \<open>\<^verbatim>\<open>str.strip()\<close>: the whitespace characters of Python below code point 256.\<close>

definition is_space :: "char \<Rightarrow> bool" where
  "is_space c = (of_char c \<in> {9, 10, 11, 12, 13, 28, 29, 30, 31, 32, 133, 160 :: nat})"

definition strip :: "string \<Rightarrow> string" where
  "strip s = rev (dropWhile is_space (rev (dropWhile is_space s)))"

section \<open>The data model\<close>

text \<open>
  \<^verbatim>\<open>Campaign.Status\<close> and \<^verbatim>\<open>CampaignMessage.Status\<close> are closed text choices. Channels
  stay strings, as in the source: \<^verbatim>\<open>campaign.channels\<close> and
  \<^verbatim>\<open>customer.preferred_channels\<close> are JSON and may name any channel.
\<close>

datatype campaign_status = Draft | Scheduled | Running | Completed | Failed

datatype message_status =
  MPending | MScheduled | MSending | MSent | MFailed | MOpened | MClicked

abbreviation EMAIL :: string where "EMAIL \<equiv> ''email''"
abbreviation WHATSAPP :: string where "WHATSAPP \<equiv> ''whatsapp''"
abbreviation SMS :: string where "SMS \<equiv> ''sms''"
abbreviation FACEBOOK :: string where "FACEBOOK \<equiv> ''facebook''"
abbreviation INSTAGRAM :: string where "INSTAGRAM \<equiv> ''instagram''"
abbreviation TWITTER :: string where "TWITTER \<equiv> ''twitter''"

record product =
  product_id :: uuid
  product_name :: string

record customer =
  customer_id :: uuid
  email :: string
  phone_number :: string
  first_name :: string
  last_name :: string
  preferred_channels :: "string list"

record campaign =
  campaign_id :: uuid
  name :: string
  title :: string
  subject_line :: string
  language_code :: string
  channels :: "(string \<times> bool) list"
  status :: campaign_status
  metrics :: dict
  campaign_product :: "product option"
  optimization_metadata :: dict
  last_run_at :: "string option"

record variant_metrics =
  vm_sent :: int
  vm_delivered :: int
  vm_opened :: int
  vm_clicked :: int
  vm_conversions :: int

record campaign_variant =
  variant_id :: uuid
  variant_campaign :: uuid
  label :: string
  channel_payload :: dict
  variant_metrics :: variant_metrics
  is_winner :: bool

record campaign_message =
  message_id :: uuid
  message_campaign :: uuid
  message_customer :: customer
  channel :: string
  content :: string
  message_status :: message_status
  attempts :: nat
  max_attempts :: nat
  last_error :: string
  external_id :: string
  metadata :: dict
  message_variant :: "uuid option"
  sent_at :: "string option"

record campaign_log =
  log_campaign :: uuid
  log_message :: "uuid option"
  action :: string
  details :: string
  log_metadata :: dict

record notification =
  notified_campaign :: uuid
  notified_status :: campaign_status
  notified_metrics :: dict

text \<open>
  The orchestrator works on its own in-memory \<^verbatim>\<open>self.campaign\<close> and on the tables.
  Rows are kept in creation order (\<^verbatim>\<open>order_by('created_at')\<close>); \<^verbatim>\<open>next_uuid\<close> is the
  supply of fresh primary keys (\<^verbatim>\<open>uuid.uuid4\<close>).
\<close>

record state =
  self_campaign :: campaign
  campaigns :: "campaign list"
  messages :: "campaign_message list"
  variants :: "campaign_variant list"
  logs :: "campaign_log list"
  notifications :: "notification list"
  next_uuid :: uuid

text \<open>
  What the process gets from outside: the clock (as ISO text), the setting behind
  \<^verbatim>\<open>default_max_attempts\<close>, the provider configuration read by \<^verbatim>\<open>BulkMessenger\<close>,
  and the two provider calls. \<^verbatim>\<open>send_mail\<close> takes subject, body and recipient and gives the
  text of the exception it raised, if any; \<^verbatim>\<open>twilio_create\<close> takes body and recipient and
  gives the message of a \<^verbatim>\<open>TwilioRestException\<close> or the provider's sid. The rate limiters
  only delay a send and are left out.
\<close>

record env =
  now :: string
  CAMPAIGN_MAX_RETRIES :: nat
  twilio_client :: bool
  twilio_from :: string
  sms_api_key :: string
  send_mail :: "json \<Rightarrow> string \<Rightarrow> string \<Rightarrow> string option"
  twilio_create :: "string \<Rightarrow> string \<Rightarrow> string + string"

record dispatch_result =
  dr_status :: message_status
  dr_metadata :: dict
  dr_external_id :: "string option"

record counts =
  sent :: nat
  failed :: nat

text \<open>\<^verbatim>\<open>str(message.id)\<close>: the text of a primary key, here its decimal digits.\<close>

fun str_uuid :: "uuid \<Rightarrow> string" where
  "str_uuid n =
     (if n < 10 then [char_of (48 + n)] else str_uuid (n div 10) @ [char_of (48 + n mod 10)])"

declare str_uuid.simps [simp del]

section \<open>BulkMessenger\<close>

definition send_email :: "env \<Rightarrow> campaign \<Rightarrow> campaign_message \<Rightarrow> string + dispatch_result" where
  "send_email e camp m =
     (let subject = py_or (py_or (dict_get (metadata m) ''subject_line'') (JStr (subject_line camp)))
                          (JStr (name camp))
      in case send_mail e subject (content m) (email (message_customer m)) of
           Some exc \<Rightarrow> Inl exc
         | None \<Rightarrow> Inr \<lparr>dr_status = MSent, dr_metadata = [(''channel'', JStr ''email'')],
                         dr_external_id = None\<rparr>)"

definition send_whatsapp :: "env \<Rightarrow> campaign_message \<Rightarrow> string + dispatch_result" where
  "send_whatsapp e m =
     (if \<not> twilio_client e \<or> twilio_from e = [] then Inl ''WhatsApp provider is not configured''
      else if phone_number (message_customer m) = []
        then Inl ''Customer does not have a WhatsApp-compatible number''
      else case twilio_create e (content m) (''whatsapp:'' @ phone_number (message_customer m)) of
             Inl msg \<Rightarrow> Inl (''WhatsApp send failed: '' @ msg)
           | Inr sid \<Rightarrow> Inr \<lparr>dr_status = MSent, dr_metadata = [(''channel'', JStr ''whatsapp'')],
                             dr_external_id = Some sid\<rparr>)"

definition send_sms :: "env \<Rightarrow> campaign_message \<Rightarrow> string + dispatch_result" where
  "send_sms e m =
     (if sms_api_key e = [] then Inl ''SMS provider is not configured''
      else if phone_number (message_customer m) = []
        then Inl ''Customer does not have a SMS-compatible number''
      else Inr \<lparr>dr_status = MSent, dr_metadata = [(''channel'', JStr ''sms'')],
                dr_external_id = Some (''sms-'' @ str_uuid (message_id m))\<rparr>)"

definition send_social :: "campaign_message \<Rightarrow> string + dispatch_result" where
  "send_social m =
     Inr \<lparr>dr_status = MSent, dr_metadata = [(''channel'', JStr (channel m))],
          dr_external_id = None\<rparr>"

text \<open>
  \<^verbatim>\<open>dispatch_message\<close>; \<^verbatim>\<open>Inl\<close> carries \<^verbatim>\<open>str(exc)\<close> of the exception that the
  delivery loop catches.
\<close>

definition dispatch_message :: "env \<Rightarrow> campaign \<Rightarrow> campaign_message \<Rightarrow> string + dispatch_result" where
  "dispatch_message e camp m =
     (if channel m = EMAIL then send_email e camp m
      else if channel m = WHATSAPP then send_whatsapp e m
      else if channel m = SMS then send_sms e m
      else if channel m \<in> {FACEBOOK, INSTAGRAM, TWITTER} then send_social m
      else Inr \<lparr>dr_status = MSent, dr_metadata = [(''note'', JStr ''Social asset ready'')],
                dr_external_id = None\<rparr>)"

section \<open>CampaignOrchestrator: building messages\<close>

definition enabled_channels :: "campaign \<Rightarrow> string list" where
  "enabled_channels camp = map fst (filter snd (channels camp))"

definition resolve_step :: "string list \<Rightarrow> customer \<Rightarrow> string \<Rightarrow> string list \<Rightarrow> string list" where
  "resolve_step enabled cust ch deduped =
     (if ch \<notin> set enabled then deduped
      else if ch = WHATSAPP \<and> phone_number cust = [] then deduped
      else if ch = SMS \<and> phone_number cust = [] then deduped
      else if ch \<notin> set deduped then deduped @ [ch]
      else deduped)"

definition resolve_channels :: "campaign \<Rightarrow> customer \<Rightarrow> string list" where
  "resolve_channels camp cust =
     (let preferred = preferred_channels cust;
          enabled = enabled_channels camp;
          ordered = preferred @ filter (\<lambda>ch. ch \<notin> set preferred) enabled
      in fold (resolve_step enabled cust) ordered [])"

definition fallback_channels :: "campaign \<Rightarrow> string \<Rightarrow> customer \<Rightarrow> string list" where
  "fallback_channels camp primary_channel cust =
     filter (\<lambda>ch. ch \<noteq> primary_channel) (resolve_channels camp cust)"

definition template_key :: "string \<Rightarrow> string" where
  "template_key ch =
     (if ch = EMAIL then ''email_body''
      else if ch = WHATSAPP then ''whatsapp_message''
      else if ch = SMS then ''sms_text''
      else if ch = FACEBOOK \<or> ch = INSTAGRAM \<or> ch = TWITTER then ''social_post''
      else ''email_body'')"

definition variant_content :: "dict \<Rightarrow> string \<Rightarrow> campaign_variant option \<Rightarrow> json" where
  "variant_content cont key variant =
     (case variant of
        Some v \<Rightarrow> py_or (dict_get (channel_payload v) key) (dict_get cont key)
      | None \<Rightarrow> dict_get cont key)"

text \<open>
  The body of \<^verbatim>\<open>_personalize(self, template, customer)\<close>. A template that is not a string
  has no \<^verbatim>\<open>replace\<close>.
\<close>

definition replacements :: "campaign \<Rightarrow> customer \<Rightarrow> (string \<times> string) list" where
  "replacements camp cust =
     [(''first_name'', first_name cust),
      (''last_name'', last_name cust),
      (''full_name'', strip (first_name cust @ '' '' @ last_name cust)),
      (''product_name'', (case campaign_product camp of Some p \<Rightarrow> product_name p | None \<Rightarrow> [])),
      (''customer_email'', email cust)]"

definition personalize :: "campaign \<Rightarrow> json \<Rightarrow> customer \<Rightarrow> error + string" where
  "personalize camp template cust =
     (case template of
        JStr t \<Rightarrow>
          Inr (fold (\<lambda>(key, val) cont. str_replace cont (''{{'' @ key @ ''}}'') val)
                 (replacements camp cust) t)
      | _ \<Rightarrow> Inl AttributeError)"

text \<open>
  A call of the bound method with positional arguments. The signature has two parameters
  after \<^verbatim>\<open>self\<close>; Python binds the arguments before the body runs and raises
  \<^verbatim>\<open>TypeError\<close> when their number differs.
\<close>

datatype pyarg = ArgJson json | ArgCustomer customer

fun call_personalize :: "campaign \<Rightarrow> pyarg list \<Rightarrow> error + string" where
  "call_personalize camp [ArgJson template, ArgCustomer cust] = personalize camp template cust"
| "call_personalize camp [a, b] = Inl AttributeError"
| "call_personalize camp args = Inl TypeError"

definition same_key :: "uuid \<Rightarrow> customer \<Rightarrow> string \<Rightarrow> campaign_message \<Rightarrow> bool" where
  "same_key cid cust ch m \<longleftrightarrow>
     message_campaign m = cid \<and> customer_id (message_customer m) = customer_id cust \<and> channel m = ch"

definition new_message ::
  "env \<Rightarrow> state \<Rightarrow> customer \<Rightarrow> string \<Rightarrow> string \<Rightarrow> dict \<Rightarrow> uuid option \<Rightarrow> campaign_message" where
  "new_message e s cust ch txt meta var =
     \<lparr>message_id = next_uuid s, message_campaign = campaign_id (self_campaign s),
      message_customer = cust, channel = ch, content = txt, message_status = MPending,
      attempts = 0, max_attempts = CAMPAIGN_MAX_RETRIES e, last_error = [], external_id = [],
      metadata = meta, message_variant = var, sent_at = None\<rparr>"

definition update_row ::
  "uuid \<Rightarrow> (campaign_message \<Rightarrow> campaign_message) \<Rightarrow> campaign_message list \<Rightarrow> campaign_message list" where
  "update_row mid f rows = map (\<lambda>r. if message_id r = mid then f r else r) rows"

text \<open>
  \<^verbatim>\<open>CampaignMessage.objects.update_or_create\<close> on the key (campaign, customer, channel)
  with the defaults of \<^verbatim>\<open>build_messages\<close>: content, status pending, metadata, variant.
\<close>

definition update_or_create ::
  "env \<Rightarrow> customer \<Rightarrow> string \<Rightarrow> string \<Rightarrow> dict \<Rightarrow> uuid option \<Rightarrow> state \<Rightarrow> (error + unit) \<times> state" where
  "update_or_create e cust ch txt meta var s =
     (case filter (same_key (campaign_id (self_campaign s)) cust ch) (messages s) of
        [] \<Rightarrow> (Inr (), s\<lparr>messages := messages s @ [new_message e s cust ch txt meta var],
                          next_uuid := Suc (next_uuid s)\<rparr>)
      | [m] \<Rightarrow> (Inr (), s\<lparr>messages := update_row (message_id m)
                   (\<lambda>r. r\<lparr>content := txt, message_status := MPending, metadata := meta,
                           message_variant := var\<rparr>) (messages s)\<rparr>)
      | _ \<Rightarrow> (Inl MultipleObjectsReturned, s))"

definition build_metadata ::
  "campaign \<Rightarrow> dict \<Rightarrow> campaign_variant option \<Rightarrow> customer \<Rightarrow> string \<Rightarrow> dict" where
  "build_metadata camp cont variant cust ch =
     [(''language_code'', JStr (language_code camp)),
      (''subject_line'', py_or (dict_get cont ''subject_line'') (JStr (subject_line camp))),
      (''title'', py_or (dict_get cont ''title'') (JStr (title camp))),
      (''hashtags'', dict_get_default cont ''hashtags'' (JStrs [])),
      (''fallback_channels'', JStrs (fallback_channels camp ch cust)),
      (''variant_label'', (case variant of Some v \<Rightarrow> JStr (label v) | None \<Rightarrow> JNull))]"

text \<open>
  The two loops of \<^verbatim>\<open>build_messages\<close>. An exception leaves the loops at once; what was
  written before it stays written.
\<close>

fun build_channels ::
  "env \<Rightarrow> dict \<Rightarrow> campaign_variant option \<Rightarrow> customer \<Rightarrow> string list \<Rightarrow> nat \<Rightarrow> state
     \<Rightarrow> (error + nat) \<times> state" where
  "build_channels e cont variant cust [] created s = (Inr created, s)"
| "build_channels e cont variant cust (ch # chs) created s =
     (let base_content = variant_content cont (template_key ch) variant in
      if \<not> truthy base_content then build_channels e cont variant cust chs created s
      else
        case call_personalize (self_campaign s)
               [ArgJson base_content, ArgCustomer cust, ArgJson (JStr ch)] of
          Inl err \<Rightarrow> (Inl err, s)
        | Inr personalized \<Rightarrow>
            (case update_or_create e cust ch personalized
                    (build_metadata (self_campaign s) cont variant cust ch)
                    (map_option variant_id variant) s of
               (Inl err, s') \<Rightarrow> (Inl err, s')
             | (Inr u, s') \<Rightarrow> build_channels e cont variant cust chs (created + 1) s'))"

fun build_customers ::
  "env \<Rightarrow> dict \<Rightarrow> campaign_variant option \<Rightarrow> customer list \<Rightarrow> nat \<Rightarrow> state
     \<Rightarrow> (error + nat) \<times> state" where
  "build_customers e cont variant [] created s = (Inr created, s)"
| "build_customers e cont variant (cust # custs) created s =
     (case build_channels e cont variant cust (resolve_channels (self_campaign s) cust) created s of
        (Inl err, s') \<Rightarrow> (Inl err, s')
      | (Inr created', s') \<Rightarrow> build_customers e cont variant custs created' s')"

definition build_messages ::
  "env \<Rightarrow> customer list \<Rightarrow> dict \<Rightarrow> campaign_variant option \<Rightarrow> state \<Rightarrow> (error + nat) \<times> state" where
  "build_messages e customers cont variant s =
     (case build_customers e cont variant customers 0 s of
        (Inl err, s') \<Rightarrow> (Inl err, s')
      | (Inr created, s') \<Rightarrow>
          (Inr created,
           s'\<lparr>logs := logs s' @
              [\<lparr>log_campaign = campaign_id (self_campaign s'), log_message = None,
                action = ''Messages prepared'', details = [],
                log_metadata =
                  [(''created'', JInt (int created)), (''timestamp'', JStr (now e)),
                   (''variant'', (case variant of Some v \<Rightarrow> JStr (label v) | None \<Rightarrow> JNull))]\<rparr>]\<rparr>))"

section \<open>CampaignOrchestrator: the delivery loop\<close>

definition add_log :: "campaign_log \<Rightarrow> state \<Rightarrow> state" where
  "add_log l s = s\<lparr>logs := logs s @ [l]\<rparr>"

text \<open>
  \<^verbatim>\<open>_queue_fallback\<close>. \<^verbatim>\<open>get_or_create\<close> looks the key (campaign, customer, next channel)
  up: a row that exists is returned as it is, several rows raise, and only a missing row is
  created from the defaults. Indexing and slicing work on a list and on a string; a number is
  not subscriptable.
\<close>

definition get_or_create ::
  "env \<Rightarrow> customer \<Rightarrow> string \<Rightarrow> string \<Rightarrow> dict \<Rightarrow> uuid option \<Rightarrow> state \<Rightarrow> (error + unit) \<times> state" where
  "get_or_create e cust ch txt meta var s =
     (case filter (same_key (campaign_id (self_campaign s)) cust ch) (messages s) of
        [] \<Rightarrow> (Inr (), s\<lparr>messages := messages s @ [new_message e s cust ch txt meta var],
                          next_uuid := Suc (next_uuid s)\<rparr>)
      | [m] \<Rightarrow> (Inr (), s)
      | _ \<Rightarrow> (Inl MultipleObjectsReturned, s))"

definition fallback_list :: "campaign_message \<Rightarrow> json" where
  "fallback_list m =
     (if metadata m \<noteq> [] then dict_get (metadata m) ''fallback_channels'' else JStrs [])"

fun subscript_split :: "json \<Rightarrow> error + string \<times> json" where
  "subscript_split (JStrs (c # cs)) = Inr (c, JStrs cs)"
| "subscript_split (JStr (c # cs)) = Inr ([c], JStr cs)"
| "subscript_split j = Inl TypeError"

definition queue_fallback :: "env \<Rightarrow> campaign_message \<Rightarrow> state \<Rightarrow> (error + unit) \<times> state" where
  "queue_fallback e m s =
     (let fallbacks = fallback_list m in
      if \<not> truthy fallbacks then (Inr (), s)
      else
        case subscript_split fallbacks of
          Inl err \<Rightarrow> (Inl err, s)
        | Inr (next_channel, rest) \<Rightarrow>
            (case get_or_create e (message_customer m) next_channel (content m)
                    (dict_set ''fallback_of'' (JStr (str_uuid (message_id m)))
                       (dict_set ''fallback_channels'' rest (metadata m)))
                    (message_variant m) s of
               (Inl err, s') \<Rightarrow> (Inl err, s')
             | (Inr u, s') \<Rightarrow>
                 (Inr (),
                  add_log \<lparr>log_campaign = campaign_id (self_campaign s'),
                           log_message = Some (message_id m), action = ''Fallback scheduled'',
                           details = [],
                           log_metadata = [(''next_channel'', JStr next_channel)]\<rparr> s')))"

definition handle_failure ::
  "env \<Rightarrow> campaign_message \<Rightarrow> string \<Rightarrow> state \<Rightarrow> (error + unit) \<times> state" where
  "handle_failure e m err s =
     (let can_retry = attempts m < max_attempts m;
          m' = m\<lparr>last_error := take 500 err,
                 message_status := (if can_retry then MPending else MFailed)\<rparr>;
          s1 = s\<lparr>messages := update_row (message_id m)
                  (\<lambda>r. r\<lparr>message_status := message_status m', last_error := last_error m'\<rparr>)
                  (messages s)\<rparr>;
          s2 = add_log \<lparr>log_campaign = campaign_id (self_campaign s1),
                        log_message = Some (message_id m), action = ''Message failed'',
                        details = err, log_metadata = []\<rparr> s1
      in if \<not> can_retry then queue_fallback e m' s2 else (Inr (), s2))"

definition handle_success :: "env \<Rightarrow> campaign_message \<Rightarrow> dispatch_result \<Rightarrow> state \<Rightarrow> state" where
  "handle_success e m res s =
     (let ext = (case dr_external_id res of
                   Some x \<Rightarrow> if x \<noteq> [] then x else external_id m
                 | None \<Rightarrow> external_id m);
          meta = dict_update (metadata m) (dr_metadata res);
          s1 = s\<lparr>messages := update_row (message_id m)
                  (\<lambda>r. r\<lparr>message_status := dr_status res, sent_at := Some (now e),
                          external_id := ext, metadata := meta, last_error := []\<rparr>)
                  (messages s)\<rparr>
      in add_log \<lparr>log_campaign = campaign_id (self_campaign s1),
                  log_message = Some (message_id m), action = ''Message sent'',
                  details = [], log_metadata = dr_metadata res\<rparr> s1)"

definition campaign_messages :: "state \<Rightarrow> campaign_message list" where
  "campaign_messages s =
     filter (\<lambda>m. message_campaign m = campaign_id (self_campaign s)) (messages s)"

definition is_pending :: "campaign_message \<Rightarrow> bool" where
  "is_pending m \<longleftrightarrow> message_status m = MPending \<or> message_status m = MScheduled"

definition count_status :: "message_status \<Rightarrow> campaign_message list \<Rightarrow> nat" where
  "count_status st ms = length (filter (\<lambda>m. message_status m = st) ms)"

text \<open>
  \<^verbatim>\<open>refresh_metrics\<close>. The dictionary that is updated is \<^verbatim>\<open>self.campaign.metrics\<close> itself
  unless that one is empty, in which case a new dictionary is filled and the one in memory
  stays empty. The row is written through a queryset, so \<^verbatim>\<open>last_run_at\<close> in memory is not
  touched.
\<close>

definition update_campaign_row :: "uuid \<Rightarrow> (campaign \<Rightarrow> campaign) \<Rightarrow> campaign list \<Rightarrow> campaign list" where
  "update_campaign_row cid f rows = map (\<lambda>r. if campaign_id r = cid then f r else r) rows"

definition refresh_metrics :: "env \<Rightarrow> state \<Rightarrow> state" where
  "refresh_metrics e s =
     (let ms = campaign_messages s;
          stats = [(''sent'', JInt (int (count_status MSent ms))),
                   (''opened'', JInt (int (count_status MOpened ms))),
                   (''clicked'', JInt (int (count_status MClicked ms)))];
          old = metrics (self_campaign s);
          new = dict_update old stats
      in s\<lparr>self_campaign := (if old \<noteq> [] then (self_campaign s)\<lparr>metrics := new\<rparr>
                              else self_campaign s),
           campaigns := update_campaign_row (campaign_id (self_campaign s))
                          (\<lambda>r. r\<lparr>metrics := new, last_run_at := Some (now e)\<rparr>) (campaigns s)\<rparr>)"

text \<open>
  \<^verbatim>\<open>_finalize\<close>: the status and the \<^verbatim>\<open>last_run_at\<close> of the object in memory are saved,
  and the notification service is told the status and the metrics in memory.
\<close>

definition finalize :: "campaign_status \<Rightarrow> state \<Rightarrow> state" where
  "finalize st s =
     (let c = (self_campaign s)\<lparr>status := st\<rparr>
      in s\<lparr>self_campaign := c,
           campaigns := update_campaign_row (campaign_id c)
                          (\<lambda>r. r\<lparr>status := st, last_run_at := last_run_at c\<rparr>) (campaigns s),
           notifications := notifications s @
             [\<lparr>notified_campaign = campaign_id c, notified_status = st,
               notified_metrics = metrics c\<rparr>]\<rparr>)"

text \<open>
  The body of the \<^verbatim>\<open>for message in queryset\<close> loop. The queryset is read once, before
  the loop, so each \<^verbatim>\<open>message\<close> is the row as it was then; \<^verbatim>\<open>save(update_fields=...)\<close>
  writes the named fields of that object to the row with its primary key.
\<close>

definition send_one :: "env \<Rightarrow> campaign_message \<Rightarrow> counts \<Rightarrow> state \<Rightarrow> (error + counts) \<times> state" where
  "send_one e m cnt s =
     (let m1 = m\<lparr>message_status := MSending, attempts := attempts m + 1\<rparr>;
          s1 = s\<lparr>messages := update_row (message_id m)
                  (\<lambda>r. r\<lparr>message_status := MSending, attempts := attempts m1\<rparr>) (messages s)\<rparr>
      in case dispatch_message e (self_campaign s1) m1 of
           Inl exc \<Rightarrow>
             (case handle_failure e m1 exc s1 of
                (Inl err, s2) \<Rightarrow> (Inl err, s2)
              | (Inr u, s2) \<Rightarrow> (Inr (cnt\<lparr>failed := failed cnt + 1\<rparr>), s2))
         | Inr res \<Rightarrow> (Inr (cnt\<lparr>sent := sent cnt + 1\<rparr>), handle_success e m1 res s1))"

fun send_loop :: "env \<Rightarrow> campaign_message list \<Rightarrow> counts \<Rightarrow> state \<Rightarrow> (error + counts) \<times> state" where
  "send_loop e [] cnt s = (Inr cnt, s)"
| "send_loop e (m # ms) cnt s =
     (case send_one e m cnt s of
        (Inl err, s') \<Rightarrow> (Inl err, s')
      | (Inr cnt', s') \<Rightarrow> send_loop e ms cnt' s')"

definition send_pending_messages :: "env \<Rightarrow> bool \<Rightarrow> state \<Rightarrow> (error + counts) \<times> state" where
  "send_pending_messages e force s =
     (if \<not> force \<and> status (self_campaign s) = Draft then (Inl ValueError, s)
      else
        let queryset = filter is_pending (campaign_messages s);
            cnt0 = \<lparr>sent = 0, failed = 0\<rparr>
        in if queryset = [] then (Inr cnt0, s)
           else
             let s1 = s\<lparr>self_campaign := (self_campaign s)\<lparr>status := Running\<rparr>,
                        campaigns := update_campaign_row (campaign_id (self_campaign s))
                                       (\<lambda>r. r\<lparr>status := Running\<rparr>) (campaigns s)\<rparr>
             in case send_loop e queryset cnt0 s1 of
                  (Inl err, s2) \<Rightarrow> (Inl err, s2)
                | (Inr cnt, s2) \<Rightarrow>
                    (let s3 = refresh_metrics e s2;
                         remaining = length (filter is_pending (campaign_messages s3))
                     in if remaining = 0
                        then (Inr cnt, finalize (if failed cnt \<noteq> 0 then Failed else Completed) s3)
                        else (Inr cnt, s3)))"

section \<open>CampaignAnalyticsService: variant metrics and the winner\<close>

text \<open>
  \<^verbatim>\<open>update_campaign_metrics\<close>. The aggregate has one row for each \<^verbatim>\<open>variant_id\<close> among the
  campaign's messages; the row without a variant is skipped. The winner is the first variant
  of the campaign ordered by clicked, then opened, both descending.
\<close>

definition variant_stats :: "campaign_message list \<Rightarrow> uuid \<Rightarrow> variant_metrics" where
  "variant_stats ms vid =
     (let rows = filter (\<lambda>m. message_variant m = Some vid) ms
      in \<lparr>vm_sent = int (count_status MSent rows),
          vm_delivered = int (count_status MSent rows),
          vm_opened = int (count_status MOpened rows),
          vm_clicked = int (count_status MClicked rows),
          vm_conversions = 0\<rparr>)"

definition update_variant_row ::
  "uuid \<Rightarrow> (campaign_variant \<Rightarrow> campaign_variant) \<Rightarrow> campaign_variant list \<Rightarrow> campaign_variant list" where
  "update_variant_row vid f rows = map (\<lambda>r. if variant_id r = vid then f r else r) rows"

definition write_variant_metrics ::
  "campaign_message list \<Rightarrow> uuid option \<Rightarrow> campaign_variant list \<Rightarrow> campaign_variant list" where
  "write_variant_metrics ms row vs =
     (case row of
        None \<Rightarrow> vs
      | Some vid \<Rightarrow> update_variant_row vid (\<lambda>r. r\<lparr>variant_metrics := variant_stats ms vid\<rparr>) vs)"

definition order_key :: "campaign_variant \<Rightarrow> int \<times> int" where
  "order_key v = (- vm_clicked (variant_metrics v), - vm_opened (variant_metrics v))"

definition first_variant :: "uuid \<Rightarrow> campaign_variant list \<Rightarrow> campaign_variant option" where
  "first_variant cid vs =
     (case sort_key order_key (filter (\<lambda>v. variant_campaign v = cid) vs) of
        [] \<Rightarrow> None
      | w # ws \<Rightarrow> Some w)"

definition update_campaign_metrics :: "state \<Rightarrow> state" where
  "update_campaign_metrics s =
     (let cid = campaign_id (self_campaign s);
          ms = campaign_messages s;
          vs = fold (write_variant_metrics ms) (remdups (map message_variant ms)) (variants s)
      in case first_variant cid vs of
           None \<Rightarrow> s\<lparr>variants := vs\<rparr>
         | Some winner \<Rightarrow>
             if is_winner winner then s\<lparr>variants := vs\<rparr>
             else
               let cleared = map (\<lambda>r. if variant_campaign r = cid then r\<lparr>is_winner := False\<rparr> else r) vs;
                   flagged = update_variant_row (variant_id winner) (\<lambda>r. r\<lparr>is_winner := True\<rparr>) cleared;
                   c = (self_campaign s)\<lparr>optimization_metadata :=
                          dict_set ''winner'' (JStr (label winner))
                            (optimization_metadata (self_campaign s))\<rparr>
               in s\<lparr>self_campaign := c,
                    variants := flagged,
                    campaigns := update_campaign_row cid
                      (\<lambda>r. r\<lparr>optimization_metadata := optimization_metadata c\<rparr>) (campaigns s)\<rparr>)"

section \<open>Vocabulary of the properties\<close>

text \<open>
  The rows that one call of \<^verbatim>\<open>_queue_fallback\<close> adds to the message table, and the
  length of a \<^verbatim>\<open>fallback_channels\<close> value.
\<close>

definition spawned :: "env \<Rightarrow> campaign_message \<Rightarrow> state \<Rightarrow> campaign_message list" where
  "spawned e m s = drop (length (messages s)) (messages (snd (queue_fallback e m s)))"

fun json_len :: "json \<Rightarrow> nat" where
  "json_len (JStrs xs) = length xs"
| "json_len (JStr x) = length x"
| "json_len j = 0"

text \<open>The metrics dictionaries stored for the orchestrator's campaign.\<close>

definition stored_metrics :: "state \<Rightarrow> dict list" where
  "stored_metrics s =
     map metrics (filter (\<lambda>r. campaign_id r = campaign_id (self_campaign s)) (campaigns s))"

text \<open>The variants of the campaign, their (clicked, opened) pair, and the data-model
  invariant that at most one of them is flagged.\<close>

definition campaign_variants :: "state \<Rightarrow> campaign_variant list" where
  "campaign_variants s =
     filter (\<lambda>v. variant_campaign v = campaign_id (self_campaign s)) (variants s)"

definition score :: "campaign_variant \<Rightarrow> int \<times> int" where
  "score v = (vm_clicked (variant_metrics v), vm_opened (variant_metrics v))"

definition at_most_one_winner :: "state \<Rightarrow> bool" where
  "at_most_one_winner s \<longleftrightarrow>
     (\<forall>v \<in> set (campaign_variants s). \<forall>v' \<in> set (campaign_variants s).
        is_winner v \<and> is_winner v' \<longrightarrow> variant_id v = variant_id v')"

text \<open>
  The retry invariant of the message table: primary keys are distinct and below the supply,
  no message has more attempts than allowed, a message that is still to be sent has an
  attempt left, and the log holds a fallback entry only for a failed message, and one at
  most.
\<close>

definition fallback_logs :: "state \<Rightarrow> uuid \<Rightarrow> nat" where
  "fallback_logs s mid =
     length (filter (\<lambda>l. action l = ''Fallback scheduled'' \<and> log_message l = Some mid) (logs s))"

definition retry_ok :: "state \<Rightarrow> bool" where
  "retry_ok s \<longleftrightarrow>
     distinct (map message_id (messages s)) \<and>
     (\<forall>m \<in> set (messages s). message_id m < next_uuid s) \<and>
     (\<forall>l \<in> set (logs s). \<forall>i. log_message l = Some i \<longrightarrow> i < next_uuid s) \<and>
     (\<forall>m \<in> set (messages s).
        attempts m \<le> max_attempts m \<and>
        (is_pending m \<longrightarrow> attempts m < max_attempts m) \<and>
        fallback_logs s (message_id m) \<le> (if message_status m = MFailed then 1 else 0))"


section \<open>Example data\<close>

definition default_metrics :: dict where
  "default_metrics =
     [(''sent'', JInt 0), (''opened'', JInt 0), (''clicked'', JInt 0), (''revenue'', JFloat 0)]"

definition alice :: customer where
  "alice = \<lparr>customer_id = 1, email = ''alice@example.com'', phone_number = [],
            first_name = ''Alice'', last_name = [], preferred_channels = []\<rparr>"

definition bob :: customer where
  "bob = \<lparr>customer_id = 2, email = ''bob@example.com'', phone_number = ''+15550100'',
          first_name = ''Bob'', last_name = ''Stone'', preferred_channels = [SMS, EMAIL]\<rparr>"

definition demo :: campaign where
  "demo = \<lparr>campaign_id = 10, name = ''Demo'', title = [], subject_line = [],
           language_code = ''en'', channels = [(EMAIL, True), (WHATSAPP, True)],
           status = Draft, metrics = default_metrics,
           campaign_product = Some \<lparr>product_id = 20, product_name = ''Lamp''\<rparr>,
           optimization_metadata = [], last_run_at = None\<rparr>"

definition empty_store :: state where
  "empty_store = \<lparr>self_campaign = demo, campaigns = [demo], messages = [], variants = [],
                  logs = [], notifications = [], next_uuid = 100\<rparr>"

definition mail_ok :: env where
  "mail_ok = \<lparr>now = ''2026-01-01T00:00:00'', CAMPAIGN_MAX_RETRIES = 3, twilio_client = False,
              twilio_from = [], sms_api_key = [], send_mail = (\<lambda>subject body recipient. None),
              twilio_create = (\<lambda>body recipient. Inr ''SM1'')\<rparr>"

definition mail_down :: env where
  "mail_down = mail_ok\<lparr>send_mail := (\<lambda>subject body recipient. Some ''connection refused'')\<rparr>"

definition scenario_content :: dict where
  "scenario_content =
     [(''email_body'', JStr ''Hi {{first_name}}''), (''whatsapp_message'', JStr ''...'')]"

definition message_of :: "uuid \<Rightarrow> customer \<Rightarrow> string \<Rightarrow> string list \<Rightarrow> campaign_message" where
  "message_of i cust ch fallbacks =
     \<lparr>message_id = i, message_campaign = 10, message_customer = cust, channel = ch,
      content = ''Hello'', message_status = MPending, attempts = 0, max_attempts = 3,
      last_error = [], external_id = [],
      metadata = [(''language_code'', JStr ''en''), (''fallback_channels'', JStrs fallbacks)],
      message_variant = None, sent_at = None\<rparr>"

definition store_of :: "campaign_message list \<Rightarrow> state" where
  "store_of ms = empty_store\<lparr>messages := ms\<rparr>"

definition sent_mail :: "uuid \<Rightarrow> message_status \<Rightarrow> campaign_message" where
  "sent_mail i st = (message_of i alice EMAIL [])\<lparr>message_status := st\<rparr>"

definition metrics_store :: state where
  "metrics_store =
     \<lparr>self_campaign = demo\<lparr>metrics := dict_set ''revenue'' (JFloat (5 / 2)) default_metrics\<rparr>,
      campaigns = [demo\<lparr>metrics := dict_set ''revenue'' (JFloat (5 / 2)) default_metrics\<rparr>],
      messages = [sent_mail 1 MSent, sent_mail 2 MSent, sent_mail 3 MOpened, sent_mail 4 MPending,
                  (sent_mail 5 MClicked)\<lparr>message_campaign := 11\<rparr>],
      variants = [], logs = [], notifications = [], next_uuid = 100\<rparr>"

definition token_template :: string where
  "token_template =
     ''Dear {{full_name}} ({{customer_email}}), {{first_name}} {{last_name}}: {{product_name}} {{coupon}}''"

definition token_content :: dict where
  "token_content = [(''email_body'', JStr token_template), (''sms_text'', JStr ''Sale, {{first_name}}!'')]"

definition keeps_flags :: "(campaign_variant \<Rightarrow> campaign_variant) \<Rightarrow> bool" where
  "keeps_flags g \<longleftrightarrow>
     (\<forall>r. variant_id (g r) = variant_id r \<and> variant_campaign (g r) = variant_campaign r \<and>
          is_winner (g r) = is_winner r)"

text \<open>
  Three variants of the campaign and the messages sent for them: the first with 10 clicked
  and 20 opened messages, the second with 15 and 5, the third with 15 and 30.
\<close>

definition tracked :: "uuid \<Rightarrow> message_status \<Rightarrow> uuid \<Rightarrow> campaign_message" where
  "tracked vid st i =
     (message_of i alice EMAIL [])\<lparr>message_status := st, message_variant := Some vid\<rparr>"

definition batch :: "nat \<Rightarrow> nat \<Rightarrow> uuid \<Rightarrow> message_status \<Rightarrow> campaign_message list" where
  "batch start n vid st = map (tracked vid st) [start ..< start + n]"

definition variant_of :: "uuid \<Rightarrow> string \<Rightarrow> campaign_variant" where
  "variant_of i l =
     \<lparr>variant_id = i, variant_campaign = 10, label = l, channel_payload = [],
      variant_metrics = \<lparr>vm_sent = 0, vm_delivered = 0, vm_opened = 0, vm_clicked = 0,
                          vm_conversions = 0\<rparr>,
      is_winner = False\<rparr>"

definition ab_store :: state where
  "ab_store = empty_store\<lparr>
     variants := [variant_of 31 ''A'', variant_of 32 ''B'', variant_of 33 ''C''],
     messages := batch 1000 10 31 MClicked @ batch 1010 20 31 MOpened @
                 batch 1030 15 32 MClicked @ batch 1045 5 32 MOpened @
                 batch 1050 15 33 MClicked @ batch 1065 30 33 MOpened\<rparr>"

text \<open>
  What one pass of the loop body for the message \<^verbatim>\<open>m\<close> may do to the store: the row of
  \<^verbatim>\<open>m\<close> gets one more attempt and a new status, log entries about \<^verbatim>\<open>m\<close> are appended,
  and at most one fresh pending row is appended.
\<close>

definition step_shape :: "env \<Rightarrow> campaign_message \<Rightarrow> state \<Rightarrow> state \<Rightarrow> bool" where
  "step_shape e m s s' \<longleftrightarrow>
     (\<exists>g st nl extra.
        s' = s\<lparr>messages := update_row (message_id m) g (messages s) @ extra,
               logs := logs s @ nl, next_uuid := next_uuid s + length extra\<rparr> \<and>
        (\<forall>r. message_id (g r) = message_id r \<and> max_attempts (g r) = max_attempts r \<and>
             attempts (g r) = attempts m + 1 \<and> message_status (g r) = st) \<and>
        (st = MPending \<or> st = MScheduled \<longrightarrow> attempts m + 1 < max_attempts m) \<and>
        (\<forall>l \<in> set nl. log_message l = Some (message_id m)) \<and>
        length (filter (\<lambda>l. action l = ''Fallback scheduled'') nl)
          \<le> (if st = MFailed then 1 else 0) \<and>
        length extra \<le> 1 \<and>
        (\<forall>x \<in> set extra. message_id x = next_uuid s \<and> attempts x = 0 \<and>
           max_attempts x = CAMPAIGN_MAX_RETRIES e \<and> message_status x = MPending))"


text \<open>
  A store in which the row of the campaign was written after the orchestrator loaded its
  campaign: the row holds a revenue of 99, the object in memory still holds 5/2.
\<close>

definition stale_store :: state where
  "stale_store =
     metrics_store\<lparr>campaigns :=
       [demo\<lparr>metrics := dict_set ''revenue'' (JInt 99) default_metrics\<rparr>]\<rparr>"

text \<open>
  Two variants without messages, both flagged: the first has 5 clicked, the second 1.
\<close>

definition flagged_variant :: "uuid \<Rightarrow> string \<Rightarrow> int \<Rightarrow> campaign_variant" where
  "flagged_variant i l clicked =
     (variant_of i l)\<lparr>variant_metrics := \<lparr>vm_sent = 0, vm_delivered = 0, vm_opened = 0,
                        vm_clicked = clicked, vm_conversions = 0\<rparr>, is_winner := True\<rparr>"

definition two_flag_store :: state where
  "two_flag_store =
     empty_store\<lparr>variants := [flagged_variant 31 ''A'' 5, flagged_variant 32 ''B'' 1]\<rparr>"




section \<open>Properties\<close>

lemmas example_defs = alice_def bob_def demo_def empty_store_def mail_ok_def mail_down_def
  scenario_content_def message_of_def store_of_def default_metrics_def

subsection \<open>Dictionaries\<close>

lemma map_of_dict_set: "map_of (dict_set k v d) = (map_of d)(k \<mapsto> v)"
  by (induction d) (auto simp: fun_eq_iff)

lemma dict_get_dict_set:
  "dict_get (dict_set k v d) k' = (if k' = k then v else dict_get d k')"
  by (simp add: dict_get_def dict_get_default_def map_of_dict_set)

lemma dict_set_not_empty [simp]: "dict_set k v d \<noteq> []"
  by (cases d) (auto split: if_splits)

subsection \<open>The draft guard\<close>

text \<open>
  Claim C9 (draft guard). For a campaign whose status is draft, \<^verbatim>\<open>send_pending_messages\<close>
  with \<^verbatim>\<open>force = False\<close> raises \<^verbatim>\<open>ValueError\<close>, the policy error of the loop, and the
  whole state (the campaign in memory, the campaign rows, messages, logs, notifications)
  is what it was before the call.
\<close>

theorem draft_guard:
  "status (self_campaign s) = Draft \<Longrightarrow> send_pending_messages e False s = (Inl ValueError, s)"
  by (simp add: send_pending_messages_def)

theorem draft_guard_witness:
  "status (self_campaign (store_of [message_of 1 alice EMAIL []])) = Draft \<and>
   send_pending_messages mail_ok False (store_of [message_of 1 alice EMAIL []])
     = (Inl ValueError, store_of [message_of 1 alice EMAIL []])"
  using draft_guard [of "store_of [message_of 1 alice EMAIL []]" mail_ok]
  by (simp add: example_defs)

subsection \<open>Channel resolution\<close>

lemma resolve_step_subset:
  "set (fold (resolve_step enabled cust) xs acc) \<subseteq>
     set acc \<union> {ch \<in> set xs. ch \<in> set enabled \<and>
                    \<not> (ch = WHATSAPP \<and> phone_number cust = []) \<and>
                    \<not> (ch = SMS \<and> phone_number cust = [])}"
proof (induction xs arbitrary: acc)
  case Nil
  then show ?case by simp
next
  case (Cons x xs)
  show ?case using Cons.IH [of "resolve_step enabled cust x acc"]
    by (auto simp: resolve_step_def split: if_splits)
qed

lemma resolve_channels_eligible:
  "ch \<in> set (resolve_channels camp cust) \<Longrightarrow>
     ch \<in> set (enabled_channels camp) \<and>
     (ch = WHATSAPP \<or> ch = SMS \<longrightarrow> phone_number cust \<noteq> [])"
  using resolve_step_subset [of "enabled_channels camp" cust
     "preferred_channels cust @
        filter (\<lambda>ch. ch \<notin> set (preferred_channels cust)) (enabled_channels camp)" "[]"]
  by (auto simp: resolve_channels_def Let_def)

subsection \<open>What \<^verbatim>\<open>build_messages\<close> writes\<close>

text \<open>
  \<^verbatim>\<open>build_messages\<close> calls \<^verbatim>\<open>self._personalize(base_content, customer, channel)\<close>, one
  argument more than the method takes, so the call raises before any row is written.
\<close>

lemma call_personalize_three [simp]:
  "call_personalize camp [a, b, c] = Inl TypeError"
  by (cases a; cases b) simp_all

lemma build_channels_state:
  "snd (build_channels e cont variant cust chs created s) = s"
  by (induction chs arbitrary: created s) (simp_all add: Let_def)

lemma build_customers_state:
  "snd (build_customers e cont variant custs created s) = s"
proof (induction custs arbitrary: created s)
  case Nil
  then show ?case by simp
next
  case (Cons c cs)
  show ?case
    using build_channels_state [of e cont variant c "resolve_channels (self_campaign s) c" created s]
      Cons.IH
    by (auto split: prod.splits sum.splits)
qed

lemma build_messages_messages:
  "messages (snd (build_messages e custs cont variant s)) = messages s"
  using build_customers_state [of e cont variant custs 0 s]
  by (auto simp: build_messages_def split: prod.splits sum.splits)

text \<open>
  Claim C4 (channel eligibility). For a customer whose phone number is empty, whatever the
  campaign, the content and the variant: neither whatsapp nor sms is among the channels
  resolved for the customer, nor among the fallback channels of any of the customer's
  messages, and these fallback channels are what \<^verbatim>\<open>build_messages\<close> puts under
  \<^verbatim>\<open>fallback_channels\<close> in the metadata; and every whatsapp or sms row of that customer
  found after \<^verbatim>\<open>build_messages\<close> was there before it.
\<close>

theorem channel_eligibility:
  "phone_number cust = [] \<Longrightarrow>
     WHATSAPP \<notin> set (resolve_channels camp cust) \<and>
     SMS \<notin> set (resolve_channels camp cust) \<and>
     WHATSAPP \<notin> set (fallback_channels camp ch cust) \<and>
     SMS \<notin> set (fallback_channels camp ch cust) \<and>
     dict_get (build_metadata camp cont variant cust ch) ''fallback_channels''
       = JStrs (fallback_channels camp ch cust) \<and>
     (\<forall>m \<in> set (messages (snd (build_messages e custs cont variant s))).
        customer_id (message_customer m) = customer_id cust \<and>
        (channel m = WHATSAPP \<or> channel m = SMS) \<longrightarrow> m \<in> set (messages s))"
  using resolve_channels_eligible [of WHATSAPP camp cust]
    resolve_channels_eligible [of SMS camp cust]
  by (auto simp: fallback_channels_def build_messages_messages build_metadata_def
        dict_get_def dict_get_default_def)

theorem channel_eligibility_witness:
  "phone_number alice = [] \<and> resolve_channels demo alice = [EMAIL] \<and>
   WHATSAPP \<notin> set (resolve_channels demo alice) \<and> SMS \<notin> set (resolve_channels demo alice) \<and>
   WHATSAPP \<notin> set (fallback_channels demo EMAIL alice) \<and>
   SMS \<notin> set (fallback_channels demo EMAIL alice)"
  using channel_eligibility [of alice demo EMAIL scenario_content None mail_ok "[alice]" empty_store]
  by (simp add: alice_def demo_def resolve_channels_def enabled_channels_def resolve_step_def)

subsection \<open>Fallback spawning\<close>

lemma subscript_split_len:
  "subscript_split j = Inr (c, rest) \<Longrightarrow> Suc (json_len rest) = json_len j"
  by (erule subscript_split.elims) auto

lemma get_or_create_self [simp]:
  "self_campaign (snd (get_or_create e cust ch txt meta var s)) = self_campaign s"
  by (auto simp: get_or_create_def split: list.splits)

lemma queue_fallback_messages:
  "messages (snd (queue_fallback e m s)) =
     (case subscript_split (fallback_list m) of
        Inl err \<Rightarrow> messages s
      | Inr (next_channel, rest) \<Rightarrow>
          if truthy (fallback_list m) \<and>
             filter (same_key (campaign_id (self_campaign s)) (message_customer m) next_channel)
               (messages s) = []
          then messages s @ [new_message e s (message_customer m) next_channel (content m)
                 (dict_set ''fallback_of'' (JStr (str_uuid (message_id m)))
                    (dict_set ''fallback_channels'' rest (metadata m))) (message_variant m)]
          else messages s)"
  by (auto simp: queue_fallback_def Let_def add_log_def get_or_create_def
      split: sum.splits prod.splits list.splits)

lemma fallback_list_new_message:
  "fallback_list (new_message e s cust ch txt
       (dict_set k' v' (dict_set ''fallback_channels'' rest meta)) var)
     = (if k' = ''fallback_channels'' then v' else rest)"
  by (simp add: fallback_list_def new_message_def dict_get_dict_set)

lemma spawned_cases:
  "m' \<in> set (spawned e m s) \<Longrightarrow>
     \<exists>next_channel rest. subscript_split (fallback_list m) = Inr (next_channel, rest) \<and>
       m' = new_message e s (message_customer m) next_channel (content m)
              (dict_set ''fallback_of'' (JStr (str_uuid (message_id m)))
                 (dict_set ''fallback_channels'' rest (metadata m))) (message_variant m)"
  by (auto simp: spawned_def queue_fallback_messages split: sum.splits if_splits)

lemma spawned_shrinks:
  "m' \<in> set (spawned e m s) \<Longrightarrow> Suc (json_len (fallback_list m')) = json_len (fallback_list m)"
  by (auto dest!: spawned_cases simp: fallback_list_new_message subscript_split_len)

text \<open>
  Claim C6 (fallback chain termination). Every row that \<^verbatim>\<open>_queue_fallback\<close> creates for a
  failed message carries a \<^verbatim>\<open>fallback_channels\<close> value exactly one shorter than that of the
  failed message; a message whose \<^verbatim>\<open>fallback_channels\<close> is empty or absent makes
  \<^verbatim>\<open>_queue_fallback\<close> return without any effect; hence the relation "was spawned as the
  fallback of" is well-founded: no chain of fallback spawns is infinite.
\<close>

theorem fallback_chain_terminates:
  "(\<forall>m' \<in> set (spawned e m s). Suc (json_len (fallback_list m')) = json_len (fallback_list m)) \<and>
   (\<not> truthy (fallback_list m) \<longrightarrow> queue_fallback e m s = (Inr (), s)) \<and>
   (map_of (metadata m) ''fallback_channels'' = None \<or>
    map_of (metadata m) ''fallback_channels'' = Some (JStrs []) \<longrightarrow> spawned e m s = []) \<and>
   wf {(m', m). \<exists>e s. m' \<in> set (spawned e m s)}"
proof (intro conjI)
  show "\<forall>m' \<in> set (spawned e m s). Suc (json_len (fallback_list m')) = json_len (fallback_list m)"
    by (simp add: spawned_shrinks)
  show "\<not> truthy (fallback_list m) \<longrightarrow> queue_fallback e m s = (Inr (), s)"
    by (simp add: queue_fallback_def)
  show "map_of (metadata m) ''fallback_channels'' = None \<or>
    map_of (metadata m) ''fallback_channels'' = Some (JStrs []) \<longrightarrow> spawned e m s = []"
    by (auto simp: spawned_def queue_fallback_def fallback_list_def dict_get_def
          dict_get_default_def)
  have "{(m', m). \<exists>e s. m' \<in> set (spawned e m s)} \<subseteq> measure (\<lambda>m. json_len (fallback_list m))"
    using spawned_shrinks by fastforce
  then show "wf {(m', m). \<exists>e s. m' \<in> set (spawned e m s)}"
    by (rule wf_subset [OF wf_measure])
qed

theorem fallback_chain_terminates_witness:
  "spawned mail_ok (message_of 1 bob EMAIL [WHATSAPP])
     (store_of [message_of 1 bob EMAIL [WHATSAPP]]) \<noteq> [] \<and>
   map (\<lambda>m'. (channel m', fallback_list m'))
     (spawned mail_ok (message_of 1 bob EMAIL [WHATSAPP])
        (store_of [message_of 1 bob EMAIL [WHATSAPP]])) = [(WHATSAPP, JStrs [])] \<and>
   json_len (fallback_list (message_of 1 bob EMAIL [WHATSAPP])) = 1 \<and>
   \<not> truthy (fallback_list (message_of 2 bob WHATSAPP [])) \<and>
   queue_fallback mail_ok (message_of 2 bob WHATSAPP []) (store_of []) = (Inr (), store_of [])"
  using fallback_chain_terminates [of mail_ok "message_of 1 bob EMAIL [WHATSAPP]"
          "store_of [message_of 1 bob EMAIL [WHATSAPP]]"]
        fallback_chain_terminates [of mail_ok "message_of 2 bob WHATSAPP []" "store_of []"]
  by (simp add: spawned_def queue_fallback_def fallback_list_def dict_get_def dict_get_default_def
        get_or_create_def same_key_def add_log_def new_message_def example_defs)

subsection \<open>The fallback spawn and the rows that exist\<close>

lemma update_row_keeps:
  "r \<in> set rows \<Longrightarrow> message_id r \<noteq> mid \<Longrightarrow> r \<in> set (update_row mid f rows)"
  by (auto simp: update_row_def)

lemma queue_fallback_prefix:
  "prefix (messages s) (messages (snd (queue_fallback e m s)))"
  by (auto simp: queue_fallback_messages split: sum.splits)

lemma queue_fallback_keeps:
  "r \<in> set (messages s) \<Longrightarrow> r \<in> set (messages (snd (queue_fallback e m s)))"
  using queue_fallback_prefix [of s e m] by (auto simp: prefix_def)

lemma handle_failure_keeps:
  assumes "r \<in> set (messages s)" "message_id r \<noteq> message_id m"
  shows "r \<in> set (messages (snd (handle_failure e m err s)))"
  using assms
  by (auto simp: handle_failure_def Let_def add_log_def intro!: queue_fallback_keeps update_row_keeps)

lemma new_message_fields:
  "message_id (new_message e s cust ch txt meta var) = next_uuid s"
  "message_campaign (new_message e s cust ch txt meta var) = campaign_id (self_campaign s)"
  "message_customer (new_message e s cust ch txt meta var) = cust"
  "channel (new_message e s cust ch txt meta var) = ch"
  "content (new_message e s cust ch txt meta var) = txt"
  "message_status (new_message e s cust ch txt meta var) = MPending"
  "attempts (new_message e s cust ch txt meta var) = 0"
  "max_attempts (new_message e s cust ch txt meta var) = CAMPAIGN_MAX_RETRIES e"
  "metadata (new_message e s cust ch txt meta var) = meta"
  "message_variant (new_message e s cust ch txt meta var) = var"
  by (simp_all add: new_message_def)

text \<open>
  Claim C10 (the fallback spawn never overwrites). \<^verbatim>\<open>_queue_fallback\<close> leaves every
  existing row as it is: the message table after it starts with the table before it, and
  when \<^verbatim>\<open>_handle_failure\<close> runs for a message, every row with another primary key is
  still in the table. When a fallback is queued to the first fallback channel and a row
  for (campaign, customer, that channel) exists, the table does not change at all; when
  none exists, exactly one row is appended: pending, on that channel, for the same
  customer and variant, with the content copied, the rest of the fallback list, and the
  \<^verbatim>\<open>fallback_of\<close> pointer to the failed message.
\<close>

theorem fallback_never_overwrites:
  "prefix (messages s) (messages (snd (queue_fallback e m s))) \<and>
   (\<forall>r \<in> set (messages s). message_id r \<noteq> message_id m \<longrightarrow>
      r \<in> set (messages (snd (handle_failure e m err s)))) \<and>
   (\<forall>next_channel rest.
      truthy (fallback_list m) \<and> subscript_split (fallback_list m) = Inr (next_channel, rest) \<longrightarrow>
      (if \<exists>r \<in> set (messages s).
            same_key (campaign_id (self_campaign s)) (message_customer m) next_channel r
       then messages (snd (queue_fallback e m s)) = messages s
       else \<exists>r'. messages (snd (queue_fallback e m s)) = messages s @ [r'] \<and>
              message_campaign r' = campaign_id (self_campaign s) \<and>
              message_customer r' = message_customer m \<and> channel r' = next_channel \<and>
              content r' = content m \<and> message_status r' = MPending \<and>
              message_variant r' = message_variant m \<and> fallback_list r' = rest \<and>
              dict_get (metadata r') ''fallback_of'' = JStr (str_uuid (message_id m))))"
proof (intro conjI allI impI ballI)
  show "prefix (messages s) (messages (snd (queue_fallback e m s)))"
    by (rule queue_fallback_prefix)
next
  fix r assume "r \<in> set (messages s)" "message_id r \<noteq> message_id m"
  then show "r \<in> set (messages (snd (handle_failure e m err s)))"
    by (rule handle_failure_keeps)
next
  fix next_channel rest
  assume a: "truthy (fallback_list m) \<and> subscript_split (fallback_list m) = Inr (next_channel, rest)"
  show "if \<exists>r \<in> set (messages s).
            same_key (campaign_id (self_campaign s)) (message_customer m) next_channel r
       then messages (snd (queue_fallback e m s)) = messages s
       else \<exists>r'. messages (snd (queue_fallback e m s)) = messages s @ [r'] \<and>
              message_campaign r' = campaign_id (self_campaign s) \<and>
              message_customer r' = message_customer m \<and> channel r' = next_channel \<and>
              content r' = content m \<and> message_status r' = MPending \<and>
              message_variant r' = message_variant m \<and> fallback_list r' = rest \<and>
              dict_get (metadata r') ''fallback_of'' = JStr (str_uuid (message_id m))"
    using a
    by (auto simp: queue_fallback_messages filter_empty_conv fallback_list_new_message
          new_message_fields dict_get_dict_set)
qed


theorem fallback_never_overwrites_witness:
  "messages (snd (queue_fallback mail_ok (message_of 1 bob EMAIL [WHATSAPP])
      (store_of [message_of 1 bob EMAIL [WHATSAPP],
                 (message_of 2 bob WHATSAPP [EMAIL])\<lparr>message_status := MSent\<rparr>])))
     = [message_of 1 bob EMAIL [WHATSAPP],
        (message_of 2 bob WHATSAPP [EMAIL])\<lparr>message_status := MSent\<rparr>] \<and>
   map (\<lambda>r. (message_id r, channel r, content r, fallback_list r))
     (messages (snd (queue_fallback mail_ok (message_of 1 bob EMAIL [WHATSAPP])
        (store_of [message_of 1 bob EMAIL [WHATSAPP]]))))
     = [(1, EMAIL, ''Hello'', JStrs [WHATSAPP]), (100, WHATSAPP, ''Hello'', JStrs [])]"
  using fallback_never_overwrites [of "store_of [message_of 1 bob EMAIL [WHATSAPP],
                 (message_of 2 bob WHATSAPP [EMAIL])\<lparr>message_status := MSent\<rparr>]"
          mail_ok "message_of 1 bob EMAIL [WHATSAPP]" "''x''"]
        fallback_never_overwrites [of "store_of [message_of 1 bob EMAIL [WHATSAPP]]"
          mail_ok "message_of 1 bob EMAIL [WHATSAPP]" "''x''"]
  by (simp add: queue_fallback_def fallback_list_def dict_get_def dict_get_default_def
        get_or_create_def same_key_def add_log_def new_message_def example_defs)

subsection \<open>Campaign metrics\<close>

lemma update_campaign_row_filter:
  "(\<And>r. campaign_id (f r) = campaign_id r) \<Longrightarrow>
   filter (\<lambda>r. campaign_id r = cid) (update_campaign_row cid f rows)
     = map f (filter (\<lambda>r. campaign_id r = cid) rows)"
  by (induction rows) (auto simp: update_campaign_row_def)

lemma refresh_metrics_self_id [simp]:
  "campaign_id (self_campaign (refresh_metrics e s)) = campaign_id (self_campaign s)"
  by (simp add: refresh_metrics_def Let_def)

lemma refresh_metrics_messages [simp]:
  "messages (refresh_metrics e s) = messages s"
  by (simp add: refresh_metrics_def Let_def)

lemma stored_metrics_refresh:
  "stored_metrics (refresh_metrics e s) =
     map (\<lambda>r. dict_set ''clicked'' (JInt (int (count_status MClicked (campaign_messages s))))
               (dict_set ''opened'' (JInt (int (count_status MOpened (campaign_messages s))))
                 (dict_set ''sent'' (JInt (int (count_status MSent (campaign_messages s))))
                   (metrics (self_campaign s)))))
       (filter (\<lambda>r. campaign_id r = campaign_id (self_campaign s)) (campaigns s))"
  unfolding stored_metrics_def refresh_metrics_self_id
  by (simp add: refresh_metrics_def Let_def update_campaign_row_filter dict_update_def o_def)

text \<open>
  Claim C7 (metrics consistency and frame), as the code has it. \<^verbatim>\<open>refresh_metrics\<close>
  does not touch the messages, and in every stored row of the campaign the values under
  \<^verbatim>\<open>sent\<close>, \<^verbatim>\<open>opened\<close> and \<^verbatim>\<open>clicked\<close> are the numbers of the campaign's messages
  in those statuses. Every other key of the stored row gets the value it has in the
  metrics dictionary of the campaign object the orchestrator holds, because that
  dictionary is written over the column. So a stored row whose metrics are those of the
  object in memory keeps, after the call, the previous stored value of every other key
  (such as \<^verbatim>\<open>revenue\<close>).
\<close>

theorem refresh_metrics_consistent:
  "campaign_messages (refresh_metrics e s) = campaign_messages s \<and>
   length (stored_metrics (refresh_metrics e s)) = length (stored_metrics s) \<and>
   (\<forall>mt \<in> set (stored_metrics (refresh_metrics e s)).
      dict_get mt ''sent'' = JInt (int (count_status MSent (campaign_messages s))) \<and>
      dict_get mt ''opened'' = JInt (int (count_status MOpened (campaign_messages s))) \<and>
      dict_get mt ''clicked'' = JInt (int (count_status MClicked (campaign_messages s))) \<and>
      (\<forall>k. k \<notin> {''sent'', ''opened'', ''clicked''} \<longrightarrow>
         map_of mt k = map_of (metrics (self_campaign s)) k)) \<and>
   (\<forall>i < length (stored_metrics s).
      stored_metrics s ! i = metrics (self_campaign s) \<longrightarrow>
      (\<forall>k. k \<notin> {''sent'', ''opened'', ''clicked''} \<longrightarrow>
         map_of (stored_metrics (refresh_metrics e s) ! i) k = map_of (stored_metrics s ! i) k))"
proof (intro conjI)
  show "campaign_messages (refresh_metrics e s) = campaign_messages s"
    by (simp add: campaign_messages_def)
  show "length (stored_metrics (refresh_metrics e s)) = length (stored_metrics s)"
    by (simp add: stored_metrics_refresh) (simp add: stored_metrics_def)
  show "\<forall>mt \<in> set (stored_metrics (refresh_metrics e s)).
      dict_get mt ''sent'' = JInt (int (count_status MSent (campaign_messages s))) \<and>
      dict_get mt ''opened'' = JInt (int (count_status MOpened (campaign_messages s))) \<and>
      dict_get mt ''clicked'' = JInt (int (count_status MClicked (campaign_messages s))) \<and>
      (\<forall>k. k \<notin> {''sent'', ''opened'', ''clicked''} \<longrightarrow>
         map_of mt k = map_of (metrics (self_campaign s)) k)"
    by (auto simp: stored_metrics_refresh dict_get_dict_set map_of_dict_set)
  show "\<forall>i < length (stored_metrics s).
      stored_metrics s ! i = metrics (self_campaign s) \<longrightarrow>
      (\<forall>k. k \<notin> {''sent'', ''opened'', ''clicked''} \<longrightarrow>
         map_of (stored_metrics (refresh_metrics e s) ! i) k = map_of (stored_metrics s ! i) k)"
  proof (intro allI impI)
    fix i k
    assume i: "i < length (stored_metrics s)"
      and sync: "stored_metrics s ! i = metrics (self_campaign s)"
      and k: "k \<notin> {''sent'', ''opened'', ''clicked''}"
    have "i < length (filter (\<lambda>r. campaign_id r = campaign_id (self_campaign s)) (campaigns s))"
      using i by (simp add: stored_metrics_def)
    then have "stored_metrics (refresh_metrics e s) ! i =
        dict_set ''clicked'' (JInt (int (count_status MClicked (campaign_messages s))))
          (dict_set ''opened'' (JInt (int (count_status MOpened (campaign_messages s))))
            (dict_set ''sent'' (JInt (int (count_status MSent (campaign_messages s))))
              (metrics (self_campaign s))))"
      by (simp add: stored_metrics_refresh)
    then show "map_of (stored_metrics (refresh_metrics e s) ! i) k = map_of (stored_metrics s ! i) k"
      using k sync by (simp add: map_of_dict_set)
  qed
qed

theorem refresh_metrics_consistent_witness:
  "stored_metrics (refresh_metrics mail_ok metrics_store) =
     [[(''sent'', JInt 2), (''opened'', JInt 1), (''clicked'', JInt 0), (''revenue'', JFloat (5 / 2))]] \<and>
   stored_metrics metrics_store = [metrics (self_campaign metrics_store)] \<and>
   dict_get (metrics (self_campaign metrics_store)) ''revenue'' = JFloat (5 / 2) \<and>
   map message_status (campaign_messages metrics_store) = [MSent, MSent, MOpened, MPending]"
proof -
  have sy: "stored_metrics metrics_store = [metrics (self_campaign metrics_store)]"
      "dict_get (metrics (self_campaign metrics_store)) ''revenue'' = JFloat (5 / 2)"
    by (simp_all add: stored_metrics_def metrics_store_def dict_get_def dict_get_default_def
          example_defs)
  have ms: "map message_status (campaign_messages metrics_store) = [MSent, MSent, MOpened, MPending]"
    by (simp add: campaign_messages_def metrics_store_def sent_mail_def example_defs)
  have cs: "count_status MSent (campaign_messages metrics_store) = 2"
       "count_status MOpened (campaign_messages metrics_store) = 1"
       "count_status MClicked (campaign_messages metrics_store) = 0"
    by (simp_all add: count_status_def campaign_messages_def metrics_store_def sent_mail_def example_defs)
  have ev: "stored_metrics (refresh_metrics mail_ok metrics_store) =
     [[(''sent'', JInt 2), (''opened'', JInt 1), (''clicked'', JInt 0), (''revenue'', JFloat (5 / 2))]]"
    unfolding stored_metrics_refresh cs
    by (simp add: metrics_store_def example_defs)
  from refresh_metrics_consistent [of mail_ok metrics_store] ev ms sy show ?thesis
    by simp
qed

text \<open>
  The frame does not hold for the stored row by itself: when the row was changed after the
  orchestrator loaded its campaign, the value in memory replaces the stored one.
\<close>

theorem refresh_metrics_stale_counterexample:
  "dict_get (hd (stored_metrics stale_store)) ''revenue'' = JInt 99 \<and>
   dict_get (hd (stored_metrics (refresh_metrics mail_ok stale_store))) ''revenue''
     = JFloat (5 / 2)"
  by (simp add: stored_metrics_refresh)
     (simp add: stored_metrics_def stale_store_def metrics_store_def dict_get_def
        dict_get_default_def example_defs)

lemmas build_defs = build_messages_def resolve_channels_def enabled_channels_def resolve_step_def
  variant_content_def template_key_def dict_get_def dict_get_default_def py_or_def

lemmas personalize_defs = personalize_def replacements_def str_replace_def strip_def is_space_def

subsection \<open>The call of \<^verbatim>\<open>_personalize\<close> in \<^verbatim>\<open>build_messages\<close>\<close>

text \<open>
  Claim C1 (end-to-end scenario). The campaign enables email and whatsapp, Alice has an
  email and no phone number, the content is \<^verbatim>\<open>Hi {{first_name}}\<close> for email. The
  scenario expects one email message with content \<^verbatim>\<open>Hi Alice\<close>, then one message sent
  and the campaign completed. Email is the one channel resolved, and the body of
  \<^verbatim>\<open>_personalize\<close> would give \<^verbatim>\<open>Hi Alice\<close>, but \<^verbatim>\<open>build_messages\<close> raises
  \<^verbatim>\<open>TypeError\<close> at the call and stores no message; the forced delivery that follows finds
  nothing to send, returns zero counts and leaves the campaign in draft.
\<close>

theorem end_to_end_scenario_raises:
  "resolve_channels demo alice = [EMAIL] \<and>
   personalize demo (JStr ''Hi {{first_name}}'') alice = Inr ''Hi Alice'' \<and>
   build_messages mail_ok [alice] scenario_content None empty_store = (Inl TypeError, empty_store) \<and>
   messages empty_store = [] \<and>
   send_pending_messages mail_ok True empty_store = (Inr \<lparr>sent = 0, failed = 0\<rparr>, empty_store) \<and>
   status (self_campaign empty_store) = Draft"
  by (simp add: build_defs personalize_defs send_pending_messages_def campaign_messages_def example_defs)

text \<open>
  Claim C2 (personalization). The body of \<^verbatim>\<open>_personalize\<close> replaces the five known
  tokens and leaves \<^verbatim>\<open>{{coupon}}\<close> as it is, yet the step does not complete: the call that
  \<^verbatim>\<open>build_messages\<close> makes passes the channel as a third argument and raises
  \<^verbatim>\<open>TypeError\<close>, so no content is stored.
\<close>

theorem personalization_call_raises:
  "personalize demo (JStr token_template) bob =
     Inr ''Dear Bob Stone (bob@example.com), Bob Stone: Lamp {{coupon}}'' \<and>
   call_personalize demo [ArgJson (JStr token_template), ArgCustomer bob, ArgJson (JStr EMAIL)]
     = Inl TypeError \<and>
   build_messages mail_ok [bob] token_content None empty_store = (Inl TypeError, empty_store)"
  by (simp add: build_defs personalize_defs token_template_def token_content_def example_defs)

text \<open>
  Claim C3 (idempotent build). With two customers and content for their channels, the
  first call of \<^verbatim>\<open>build_messages\<close> raises \<^verbatim>\<open>TypeError\<close> instead of returning a count,
  and so does the second call on the state the first one left; no row exists afterwards.
\<close>

theorem build_twice_raises:
  "build_messages mail_ok [alice, bob] scenario_content None empty_store
     = (Inl TypeError, empty_store) \<and>
   build_messages mail_ok [alice, bob] scenario_content None
       (snd (build_messages mail_ok [alice, bob] scenario_content None empty_store))
     = (Inl TypeError, empty_store) \<and>
   messages empty_store = []"
  by (simp add: build_defs example_defs)

subsection \<open>The winning variant\<close>

lemma first_variant_Some:
  assumes "first_variant cid vs = Some w"
  shows "w \<in> set vs \<and> variant_campaign w = cid \<and>
         (\<forall>v \<in> set vs. variant_campaign v = cid \<longrightarrow> order_key w \<le> order_key v)"
proof -
  let ?xs = "filter (\<lambda>v. variant_campaign v = cid) vs"
  from assms obtain ws where sk: "sort_key order_key ?xs = w # ws"
    by (auto simp: first_variant_def split: list.splits)
  have "set (w # ws) = set ?xs"
    using set_sort [of order_key ?xs] sk by simp
  moreover have "sorted (map order_key (w # ws))"
    using sorted_sort_key [of order_key ?xs] sk by simp
  ultimately show ?thesis
    by (auto simp: le_less)
qed

lemma first_variant_None:
  assumes "first_variant cid vs = None"
  shows "\<forall>v \<in> set vs. variant_campaign v \<noteq> cid"
proof -
  let ?xs = "filter (\<lambda>v. variant_campaign v = cid) vs"
  from assms have "sort_key order_key ?xs = []"
    by (auto simp: first_variant_def split: list.splits)
  then have "set ?xs = {}"
    using set_sort [of order_key ?xs] by simp
  then show ?thesis by (auto simp: filter_empty_conv)
qed

lemma order_key_score: "order_key a \<le> order_key b \<Longrightarrow> \<not> score a < score b"
  by (auto simp: order_key_def score_def)

lemma write_variant_metrics_map:
  "\<exists>g. keeps_flags g \<and> write_variant_metrics ms row vs = map g vs"
proof (cases row)
  case None
  then show ?thesis
    by (intro exI [of _ "\<lambda>r. r"]) (simp add: keeps_flags_def write_variant_metrics_def)
next
  case (Some vid)
  then show ?thesis
    by (intro exI [of _ "\<lambda>r. if variant_id r = vid
          then r\<lparr>variant_metrics := variant_stats ms vid\<rparr> else r"])
       (simp add: keeps_flags_def write_variant_metrics_def update_variant_row_def)
qed

lemma fold_write_variant_metrics_map:
  "\<exists>g. keeps_flags g \<and> fold (write_variant_metrics ms) rows vs = map g vs"
proof (induction rows arbitrary: vs)
  case Nil
  show ?case by (intro exI [of _ "\<lambda>r. r"]) (simp add: keeps_flags_def)
next
  case (Cons row rows)
  obtain g1 where g1: "keeps_flags g1" "write_variant_metrics ms row vs = map g1 vs"
    using write_variant_metrics_map by blast
  obtain g2 where g2: "keeps_flags g2"
      "fold (write_variant_metrics ms) rows (map g1 vs) = map g2 (map g1 vs)"
    using Cons.IH by blast
  show ?case
    using g1 g2 by (intro exI [of _ "g2 \<circ> g1"]) (simp add: keeps_flags_def)
qed


lemma update_campaign_metrics_self_id [simp]:
  "campaign_id (self_campaign (update_campaign_metrics s)) = campaign_id (self_campaign s)"
  by (simp add: update_campaign_metrics_def Let_def split: option.splits)

lemma update_campaign_metrics_variants:
  "\<exists>g. keeps_flags g \<and>
     variants (update_campaign_metrics s) =
       (case first_variant (campaign_id (self_campaign s)) (map g (variants s)) of
          None \<Rightarrow> map g (variants s)
        | Some w0 \<Rightarrow>
            if is_winner w0 then map g (variants s)
            else map (\<lambda>r. if variant_id r = variant_id w0 then r\<lparr>is_winner := True\<rparr>
                           else if variant_campaign r = campaign_id (self_campaign s)
                             then r\<lparr>is_winner := False\<rparr> else r) (map g (variants s)))"
proof -
  obtain g where g: "keeps_flags g"
    "fold (write_variant_metrics (campaign_messages s))
       (remdups (map message_variant (campaign_messages s))) (variants s) = map g (variants s)"
    using fold_write_variant_metrics_map by blast
  show ?thesis
    by (rule exI [of _ g])
       (auto simp: g update_campaign_metrics_def Let_def update_variant_row_def
          split: option.splits)
qed

text \<open>
  Claim C8 (winner selection), as the code has it. The aggregator clears the flags of the
  campaign only when the first variant in the order is not flagged yet. So: variants have
  distinct primary keys, \<^verbatim>\<open>w\<close> is the variant of the campaign whose pair (clicked, then
  opened), as recounted by \<^verbatim>\<open>update_campaign_metrics\<close>, is above the pair of every other
  variant of the campaign, and if \<^verbatim>\<open>w\<close> is flagged before the run then no other variant
  of the campaign is. Then after the run a variant of the campaign has \<^verbatim>\<open>is_winner\<close> set
  exactly when it is \<^verbatim>\<open>w\<close>. The example with A (10 clicked, 20 opened), B (15, 5) and
  C (15, 30) follows the theorem: exactly C is flagged.
\<close>

theorem winner_selection:
  assumes ids: "distinct (map variant_id (variants s))"
      and guard: "\<forall>u \<in> set (campaign_variants s). \<forall>v \<in> set (campaign_variants s).
                    variant_id u = variant_id w \<and> is_winner u \<and> is_winner v \<longrightarrow>
                    variant_id v = variant_id w"
      and wmem: "w \<in> set (campaign_variants (update_campaign_metrics s))"
      and top: "\<forall>v \<in> set (campaign_variants (update_campaign_metrics s)).
                  variant_id v \<noteq> variant_id w \<longrightarrow> score v < score w"
  shows "\<forall>v \<in> set (campaign_variants (update_campaign_metrics s)).
           is_winner v \<longleftrightarrow> variant_id v = variant_id w"
proof -
  let ?cid = "campaign_id (self_campaign s)"
  obtain g where g: "keeps_flags g" and
    F: "variants (update_campaign_metrics s) =
       (case first_variant ?cid (map g (variants s)) of
          None \<Rightarrow> map g (variants s)
        | Some w0 \<Rightarrow>
            if is_winner w0 then map g (variants s)
            else map (\<lambda>r. if variant_id r = variant_id w0 then r\<lparr>is_winner := True\<rparr>
                           else if variant_campaign r = ?cid
                             then r\<lparr>is_winner := False\<rparr> else r) (map g (variants s)))"
    using update_campaign_metrics_variants by blast
  let ?vs = "map g (variants s)"
  let ?F = "variants (update_campaign_metrics s)"
  have gk: "\<And>r. variant_id (g r) = variant_id r" "\<And>r. variant_campaign (g r) = variant_campaign r"
      "\<And>r. is_winner (g r) = is_winner r"
    using g by (simp_all add: keeps_flags_def)
  have "distinct (map variant_id ?vs)" using ids by (simp add: o_def gk)
  then have inj: "inj_on variant_id (set ?vs)"
    unfolding distinct_map by (rule conjunct2)
  define h where "h = (case first_variant ?cid ?vs of
          None \<Rightarrow> (\<lambda>r::campaign_variant. r)
        | Some w0 \<Rightarrow>
            if is_winner w0 then (\<lambda>r. r)
            else (\<lambda>r. if variant_id r = variant_id w0 then r\<lparr>is_winner := True\<rparr>
                      else if variant_campaign r = ?cid then r\<lparr>is_winner := False\<rparr> else r))"
  have Fh: "?F = map h ?vs"
    unfolding F h_def by (simp split: option.splits)
  have hk: "variant_id (h r) = variant_id r" "variant_campaign (h r) = variant_campaign r"
      "variant_metrics (h r) = variant_metrics r" for r
    unfolding h_def by (simp_all split: option.splits)
  have cv: "set (campaign_variants (update_campaign_metrics s)) =
      h ` {u \<in> set ?vs. variant_campaign u = ?cid}"
    by (auto simp: campaign_variants_def Fh hk)
  from wmem obtain uw where uw: "uw \<in> set ?vs" "variant_campaign uw = ?cid" "w = h uw"
    unfolding cv by blast
  obtain w0 where w0: "first_variant ?cid ?vs = Some w0"
    using first_variant_None [of ?cid ?vs] uw by (cases "first_variant ?cid ?vs") auto
  have w0p: "w0 \<in> set ?vs" "variant_campaign w0 = ?cid"
      "\<forall>v \<in> set ?vs. variant_campaign v = ?cid \<longrightarrow> order_key w0 \<le> order_key v"
    using first_variant_Some [OF w0] by simp_all
  have same: "variant_id w0 = variant_id w"
  proof (rule ccontr)
    assume neq: "variant_id w0 \<noteq> variant_id w"
    have "h w0 \<in> set (campaign_variants (update_campaign_metrics s))"
      unfolding cv using w0p by blast
    moreover have "variant_id (h w0) \<noteq> variant_id w" using neq by (simp add: hk)
    ultimately have "score (h w0) < score w" using top by blast
    then have "score w0 < score uw"
      by (simp add: score_def hk uw(3))
    moreover have "order_key w0 \<le> order_key uw"
      using w0p(3) uw by blast
    ultimately show False using order_key_score by blast
  qed
  have eq_id: "a = b" if "a \<in> set ?vs" "b \<in> set ?vs" "variant_id a = variant_id b" for a b
    using inj_onD [OF inj that(3) that(1) that(2)] .
  show ?thesis
  proof (intro ballI)
    fix v assume "v \<in> set (campaign_variants (update_campaign_metrics s))"
    then obtain u where u: "u \<in> set ?vs" "variant_campaign u = ?cid" "v = h u"
      unfolding cv by blast
    have idv: "variant_id v = variant_id w \<longleftrightarrow> u = w0"
    proof
      assume "variant_id v = variant_id w"
      then have "variant_id u = variant_id w0" using same by (simp add: u(3) hk)
      with u(1) w0p(1) show "u = w0" by (rule eq_id)
    next
      assume "u = w0"
      then show "variant_id v = variant_id w" using same by (simp add: u(3) hk)
    qed
    show "is_winner v \<longleftrightarrow> variant_id v = variant_id w"
    proof (cases "is_winner w0")
      case True
      then have hid: "h = (\<lambda>r. r)" unfolding h_def using w0 by simp
      from u(1) obtain r where r: "r \<in> set (variants s)" "u = g r" by auto
      from w0p(1) obtain r0 where r0: "r0 \<in> set (variants s)" "w0 = g r0" by auto
      have mem: "r \<in> set (campaign_variants s)" "r0 \<in> set (campaign_variants s)"
        using r r0 u(2) w0p(2) by (simp_all add: campaign_variants_def gk)
      have "is_winner r0" using True r0 by (simp add: gk)
      have "is_winner u \<Longrightarrow> u = w0"
      proof -
        assume "is_winner u"
        then have "is_winner r" using r by (simp add: gk)
        moreover have "variant_id r0 = variant_id w" using same r0 by (simp add: gk)
        ultimately have "variant_id r = variant_id w"
          using \<open>is_winner r0\<close> mem guard by blast
        then have "variant_id u = variant_id w0" using same r by (simp add: gk)
        with u(1) w0p(1) show "u = w0" by (rule eq_id)
      qed
      then show ?thesis
        using True idv by (auto simp: u(3) hid)
    next
      case False
      then have "h u = (if variant_id u = variant_id w0 then u\<lparr>is_winner := True\<rparr>
                      else if variant_campaign u = ?cid then u\<lparr>is_winner := False\<rparr> else u)"
        unfolding h_def using w0 by simp
      moreover have "variant_id u = variant_id w0 \<longleftrightarrow> u = w0"
        using eq_id [OF u(1) w0p(1)] by blast
      ultimately show ?thesis
        using idv u(2) by (simp add: u(3))
    qed
  qed
qed


subsection \<open>The example with three variants\<close>

lemma count_status_append [simp]:
  "count_status st (xs @ ys) = count_status st xs + count_status st ys"
  by (simp add: count_status_def)

lemma count_status_Nil [simp]: "count_status st [] = 0"
  by (simp add: count_status_def)

lemma count_status_batch [simp]:
  "count_status st' (batch a n vid st) = (if st' = st then n else 0)"
  by (simp add: count_status_def batch_def tracked_def filter_map o_def)

lemma filter_variant_batch [simp]:
  "filter (\<lambda>m. message_variant m = Some v) (batch a n vid st) =
     (if v = vid then batch a n vid st else [])"
  by (simp add: batch_def tracked_def filter_map o_def)

lemma filter_campaign_batch [simp]:
  "filter (\<lambda>m. message_campaign m = 10) (batch a n vid st) = batch a n vid st"
  by (simp add: batch_def tracked_def message_of_def filter_map o_def)

lemma message_variant_batch [simp]:
  "map message_variant (batch a n vid st) = replicate n (Some vid)"
  by (simp add: batch_def tracked_def o_def map_replicate_const)

lemma ab_store_messages:
  "campaign_messages ab_store = messages ab_store"
  by (simp add: campaign_messages_def ab_store_def empty_store_def demo_def)

lemma remdups_replicate_append:
  "remdups (replicate n x @ ys) = (if n = 0 \<or> x \<in> set ys then remdups ys else x # remdups ys)"
  by (induction n) auto

lemma ab_store_rows:
  "remdups (map message_variant (messages ab_store)) = [Some 31, Some 32, Some 33]"
proof -
  have "map message_variant (messages ab_store) =
      replicate 10 (Some 31) @ replicate 20 (Some 31) @ replicate 15 (Some 32) @
      replicate 5 (Some 32) @ replicate 15 (Some 33) @ replicate 30 (Some 33) @ []"
    by (simp add: ab_store_def empty_store_def)
  then show ?thesis
    by (simp only: remdups_replicate_append) simp
qed

lemma ab_store_variants:
  "variants ab_store = [variant_of 31 ''A'', variant_of 32 ''B'', variant_of 33 ''C'']"
  "campaign_id (self_campaign ab_store) = 10"
  by (simp_all add: ab_store_def empty_store_def demo_def)

lemma ab_store_stats:
  "variant_stats (messages ab_store) 31 =
     \<lparr>vm_sent = 0, vm_delivered = 0, vm_opened = 20, vm_clicked = 10, vm_conversions = 0\<rparr>"
  "variant_stats (messages ab_store) 32 =
     \<lparr>vm_sent = 0, vm_delivered = 0, vm_opened = 5, vm_clicked = 15, vm_conversions = 0\<rparr>"
  "variant_stats (messages ab_store) 33 =
     \<lparr>vm_sent = 0, vm_delivered = 0, vm_opened = 30, vm_clicked = 15, vm_conversions = 0\<rparr>"
  by (simp_all add: variant_stats_def ab_store_def empty_store_def)

lemma ab_store_written:
  "fold (write_variant_metrics (messages ab_store))
     (remdups (map message_variant (messages ab_store)))
     [variant_of 31 ''A'', variant_of 32 ''B'', variant_of 33 ''C''] =
     [(variant_of 31 ''A'')\<lparr>variant_metrics := \<lparr>vm_sent = 0, vm_delivered = 0, vm_opened = 20,
         vm_clicked = 10, vm_conversions = 0\<rparr>\<rparr>,
      (variant_of 32 ''B'')\<lparr>variant_metrics := \<lparr>vm_sent = 0, vm_delivered = 0, vm_opened = 5,
         vm_clicked = 15, vm_conversions = 0\<rparr>\<rparr>,
      (variant_of 33 ''C'')\<lparr>variant_metrics := \<lparr>vm_sent = 0, vm_delivered = 0, vm_opened = 30,
         vm_clicked = 15, vm_conversions = 0\<rparr>\<rparr>]"
  unfolding ab_store_rows
  by (simp add: write_variant_metrics_def update_variant_row_def ab_store_stats variant_of_def)

lemma ab_store_result:
  "variants (update_campaign_metrics ab_store) =
     [(variant_of 31 ''A'')\<lparr>variant_metrics := \<lparr>vm_sent = 0, vm_delivered = 0, vm_opened = 20,
         vm_clicked = 10, vm_conversions = 0\<rparr>\<rparr>,
      (variant_of 32 ''B'')\<lparr>variant_metrics := \<lparr>vm_sent = 0, vm_delivered = 0, vm_opened = 5,
         vm_clicked = 15, vm_conversions = 0\<rparr>\<rparr>,
      (variant_of 33 ''C'')\<lparr>variant_metrics := \<lparr>vm_sent = 0, vm_delivered = 0, vm_opened = 30,
         vm_clicked = 15, vm_conversions = 0\<rparr>, is_winner := True\<rparr>]"
  unfolding update_campaign_metrics_def Let_def ab_store_messages ab_store_written
    ab_store_variants
  by (simp add: first_variant_def order_key_def update_variant_row_def variant_of_def)


theorem winner_selection_witness:
  "map (\<lambda>v. (label v, score v, is_winner v))
     (campaign_variants (update_campaign_metrics ab_store))
     = [(''A'', (10, 20), False), (''B'', (15, 5), False), (''C'', (15, 30), True)] \<and>
   distinct (map variant_id (variants ab_store)) \<and>
   map is_winner (campaign_variants ab_store) = [False, False, False]"
proof -
  let ?C = "(variant_of 33 ''C'')\<lparr>variant_metrics := \<lparr>vm_sent = 0, vm_delivered = 0,
      vm_opened = 30, vm_clicked = 15, vm_conversions = 0\<rparr>, is_winner := True\<rparr>"
  have cv: "campaign_variants (update_campaign_metrics ab_store) =
      variants (update_campaign_metrics ab_store)"
    by (simp add: campaign_variants_def ab_store_result ab_store_variants variant_of_def)
  have h0: "map is_winner (campaign_variants ab_store) = [False, False, False]"
    by (simp add: campaign_variants_def ab_store_variants variant_of_def)
  have h1: "distinct (map variant_id (variants ab_store))"
    by (simp add: ab_store_variants variant_of_def)
  have h2: "\<forall>u \<in> set (campaign_variants ab_store). \<forall>v \<in> set (campaign_variants ab_store).
      variant_id u = variant_id ?C \<and> is_winner u \<and> is_winner v \<longrightarrow>
      variant_id v = variant_id ?C"
    by (simp add: campaign_variants_def ab_store_variants variant_of_def)
  have h3: "?C \<in> set (campaign_variants (update_campaign_metrics ab_store))"
    unfolding cv ab_store_result by simp
  have h4: "\<forall>v \<in> set (campaign_variants (update_campaign_metrics ab_store)).
      variant_id v \<noteq> variant_id ?C \<longrightarrow> score v < score ?C"
    unfolding cv ab_store_result by (simp add: score_def variant_of_def)
  from winner_selection [OF h1 h2 h3 h4] h0 h1 show ?thesis
    unfolding cv ab_store_result by (simp add: score_def variant_of_def)
qed

subsection \<open>Flags that are set before the aggregator runs\<close>

lemma two_flag_messages: "campaign_messages two_flag_store = []"
  by (simp add: campaign_messages_def two_flag_store_def empty_store_def)

lemma two_flag_variants:
  "variants two_flag_store = [flagged_variant 31 ''A'' 5, flagged_variant 32 ''B'' 1]"
  "campaign_id (self_campaign two_flag_store) = 10"
  by (simp_all add: two_flag_store_def empty_store_def demo_def)

lemma two_flag_first:
  "first_variant 10 [flagged_variant 31 ''A'' 5, flagged_variant 32 ''B'' 1]
     = Some (flagged_variant 31 ''A'' 5)"
  by (simp add: first_variant_def order_key_def flagged_variant_def variant_of_def)

lemma two_flag_result:
  "variants (update_campaign_metrics two_flag_store) =
     [flagged_variant 31 ''A'' 5, flagged_variant 32 ''B'' 1]"
  unfolding update_campaign_metrics_def Let_def two_flag_messages two_flag_variants
  by (simp add: two_flag_first) (simp add: flagged_variant_def two_flag_variants)

text \<open>
  With the first variant in the order flagged already, the aggregator changes no flag, so a
  second flag that was set before stays set: here A is on top, and A and B are both flagged
  before and after the run.
\<close>

theorem winner_selection_two_flags_counterexample:
  "map is_winner (campaign_variants two_flag_store) = [True, True] \<and>
   map score (campaign_variants (update_campaign_metrics two_flag_store)) = [(5, 0), (1, 0)] \<and>
   map is_winner (campaign_variants (update_campaign_metrics two_flag_store)) = [True, True]"
  by (simp add: campaign_variants_def two_flag_result two_flag_variants)
     (simp add: flagged_variant_def variant_of_def score_def)

text \<open>
  The data model's invariant, at most one flagged variant in a campaign, gives the premise
  of the theorem, and the aggregator keeps it.
\<close>

lemma at_most_one_winner_guard:
  assumes "at_most_one_winner s"
  shows "\<forall>u \<in> set (campaign_variants s). \<forall>v \<in> set (campaign_variants s).
           variant_id u = variant_id w \<and> is_winner u \<and> is_winner v \<longrightarrow>
           variant_id v = variant_id w"
proof (intro ballI impI)
  fix u v
  assume uv: "u \<in> set (campaign_variants s)" "v \<in> set (campaign_variants s)"
    and h: "variant_id u = variant_id w \<and> is_winner u \<and> is_winner v"
  from assms uv h have "variant_id u = variant_id v"
    unfolding at_most_one_winner_def by blast
  with h show "variant_id v = variant_id w" by simp
qed

lemma update_campaign_metrics_one_winner:
  assumes one: "at_most_one_winner s"
  shows "at_most_one_winner (update_campaign_metrics s)"
proof -
  let ?cid = "campaign_id (self_campaign s)"
  obtain g where g: "keeps_flags g" and
    F: "variants (update_campaign_metrics s) =
       (case first_variant ?cid (map g (variants s)) of
          None \<Rightarrow> map g (variants s)
        | Some w0 \<Rightarrow>
            if is_winner w0 then map g (variants s)
            else map (\<lambda>r. if variant_id r = variant_id w0 then r\<lparr>is_winner := True\<rparr>
                           else if variant_campaign r = ?cid
                             then r\<lparr>is_winner := False\<rparr> else r) (map g (variants s)))"
    using update_campaign_metrics_variants by blast
  have gk: "\<And>r. variant_id (g r) = variant_id r" "\<And>r. variant_campaign (g r) = variant_campaign r"
      "\<And>r. is_winner (g r) = is_winner r"
    using g by (simp_all add: keeps_flags_def)
  have kept: "variant_id a = variant_id b"
    if "a \<in> set (map g (variants s))" "b \<in> set (map g (variants s))"
       "variant_campaign a = ?cid" "variant_campaign b = ?cid" "is_winner a" "is_winner b" for a b
  proof -
    from that(1,2) obtain ra rb where r: "ra \<in> set (variants s)" "a = g ra"
        "rb \<in> set (variants s)" "b = g rb"
      by auto
    have "ra \<in> set (campaign_variants s)" "rb \<in> set (campaign_variants s)"
      using r that(3,4) by (simp_all add: campaign_variants_def gk)
    moreover have "is_winner ra" "is_winner rb" using r that(5,6) by (simp_all add: gk)
    ultimately have "variant_id ra = variant_id rb"
      using one unfolding at_most_one_winner_def by blast
    then show ?thesis using r by (simp add: gk)
  qed
  have unchanged: "at_most_one_winner (update_campaign_metrics s)"
    if eq: "variants (update_campaign_metrics s) = map g (variants s)"
    unfolding at_most_one_winner_def
  proof (intro ballI impI)
    fix a b
    assume a: "a \<in> set (campaign_variants (update_campaign_metrics s))"
      and b: "b \<in> set (campaign_variants (update_campaign_metrics s))"
      and f: "is_winner a \<and> is_winner b"
    have "a \<in> set (map g (variants s))" "variant_campaign a = ?cid"
      using a unfolding campaign_variants_def eq by simp_all
    moreover have "b \<in> set (map g (variants s))" "variant_campaign b = ?cid"
      using b unfolding campaign_variants_def eq by simp_all
    ultimately show "variant_id a = variant_id b"
      using f kept by blast
  qed
  show ?thesis
  proof (cases "first_variant ?cid (map g (variants s))")
    case None
    then have "variants (update_campaign_metrics s) = map g (variants s)" using F by simp
    then show ?thesis by (rule unchanged)
  next
    case (Some w0)
    show ?thesis
    proof (cases "is_winner w0")
      case True
      then have "variants (update_campaign_metrics s) = map g (variants s)"
        using F Some by simp
      then show ?thesis by (rule unchanged)
    next
      case False
      then have eq: "variants (update_campaign_metrics s) =
          map (\<lambda>r. if variant_id r = variant_id w0 then r\<lparr>is_winner := True\<rparr>
                           else if variant_campaign r = ?cid
                             then r\<lparr>is_winner := False\<rparr> else r) (map g (variants s))"
        using F Some by simp
      define h where "h = (\<lambda>r::campaign_variant.
          if variant_id r = variant_id w0 then r\<lparr>is_winner := True\<rparr>
          else if variant_campaign r = ?cid then r\<lparr>is_winner := False\<rparr> else r)"
      have eq': "variants (update_campaign_metrics s) = map h (map g (variants s))"
        unfolding eq h_def by simp
      have hc: "variant_campaign (h r) = variant_campaign r" for r
        unfolding h_def by simp
      have flags: "variant_id v = variant_id w0"
        if "v \<in> set (campaign_variants (update_campaign_metrics s))" "is_winner v" for v
      proof -
        from that(1) have "v \<in> h ` set (map g (variants s))" "variant_campaign v = ?cid"
          unfolding campaign_variants_def eq' by auto
        then obtain u where u: "v = h u" "variant_campaign u = ?cid"
          using hc by auto
        show ?thesis
        proof (cases "variant_id u = variant_id w0")
          case True
          then show ?thesis unfolding u(1) h_def by simp
        next
          case False
          then have "\<not> is_winner v" unfolding u(1) h_def using u(2) by simp
          then show ?thesis using that(2) by simp
        qed
      qed
      show ?thesis
        unfolding at_most_one_winner_def
      proof (intro ballI impI)
        fix a b
        assume "a \<in> set (campaign_variants (update_campaign_metrics s))"
          "b \<in> set (campaign_variants (update_campaign_metrics s))"
          "is_winner a \<and> is_winner b"
        then have "variant_id a = variant_id w0" "variant_id b = variant_id w0"
          using flags by blast+
        then show "variant_id a = variant_id b" by simp
      qed
    qed
  qed
qed

subsection \<open>One pass of the delivery loop\<close>







subsection \<open>The retry invariant\<close>








lemma step_shape_self:
  assumes "step_shape e m s s'"
  shows "self_campaign s' = self_campaign s"
  using assms unfolding step_shape_def by auto





lemma refresh_metrics_tables [simp]:
  "logs (refresh_metrics e s) = logs s" "next_uuid (refresh_metrics e s) = next_uuid s"
  by (simp_all add: refresh_metrics_def Let_def)

lemma finalize_tables [simp]:
  "messages (finalize st s) = messages s" "logs (finalize st s) = logs s"
  "next_uuid (finalize st s) = next_uuid s"
  by (simp_all add: finalize_def Let_def)







lemma fresh_store_retry_ok:
  assumes "distinct (map message_id (messages s))"
      and "\<forall>m \<in> set (messages s). message_id m < next_uuid s"
      and "logs s = []"
      and "\<forall>m \<in> set (messages s). attempts m = 0 \<and> 1 \<le> max_attempts m"
  shows "retry_ok s"
  using assms unfolding retry_ok_def fallback_logs_def by auto






end
